theory Spec2Isabelle
  imports Complex_Main
begin

section \<open>JavaScript values\<close>

text \<open>
  A JavaScript string is a sequence of UTF-16 code units, and \<open>length\<close>, \<open>slice\<close> and
  \<open>trim\<close> count code units. The server's literals contain Cyrillic text, so a string is
  modelled as the list of its code units; \<open>js\<close> embeds an ASCII literal.
\<close>

type_synonym jsstring = "nat list"

definition js :: "string \<Rightarrow> jsstring" where
  "js s = map of_char s"

text \<open>
  A field of a JSON body or a nullable column that holds a string is a \<open>jsstring option\<close>;
  \<open>None\<close> stands for \<open>undefined\<close> and \<open>null\<close>. The test \<open>if (x)\<close> on such a value
  fails for \<open>undefined\<close>, \<open>null\<close> and the empty string.
\<close>

definition truthy :: "jsstring option \<Rightarrow> bool" where
  "truthy x = (case x of None \<Rightarrow> False | Some s \<Rightarrow> s \<noteq> [])"

text \<open>\<open>x || d\<close> for a string-or-absent \<open>x\<close> and a string \<open>d\<close>.\<close>

definition or_else :: "jsstring option \<Rightarrow> jsstring \<Rightarrow> jsstring" where
  "or_else x d = (case x of None \<Rightarrow> d | Some s \<Rightarrow> if s = [] then d else s)"

text \<open>\<open>x || null\<close> for a string-or-absent \<open>x\<close>.\<close>

definition or_null :: "jsstring option \<Rightarrow> jsstring option" where
  "or_null x = (if truthy x then x else None)"

text \<open>
  A JavaScript number is a double. The finite doubles are rationals, and the operations
  used by the server (\<open>>=\<close>, \<open>Math.round\<close>, \<open>Math.min\<close>, \<open>Math.max\<close>) are exact on
  them, so a number is a rational, \<open>NaN\<close> or one of the infinities. The sign of zero is
  not modelled.
\<close>

datatype jsnum = Fin rat | NaN | PosInf | NegInf

fun js_le :: "jsnum \<Rightarrow> jsnum \<Rightarrow> bool" where
  "js_le NaN _ = False"
| "js_le _ NaN = False"
| "js_le NegInf _ = True"
| "js_le _ PosInf = True"
| "js_le (Fin x) (Fin y) = (x \<le> y)"
| "js_le _ _ = False"

definition js_ge :: "jsnum \<Rightarrow> jsnum \<Rightarrow> bool" where
  "js_ge a b = js_le b a"

definition js_lt :: "jsnum \<Rightarrow> jsnum \<Rightarrow> bool" where
  "js_lt a b = (js_le a b \<and> a \<noteq> b)"

text \<open>\<open>Math.round\<close> rounds to the nearest integer, ties towards plus infinity.\<close>

fun Math_round :: "jsnum \<Rightarrow> jsnum" where
  "Math_round (Fin x) = Fin (of_int \<lfloor>x + 1 / 2\<rfloor>)"
| "Math_round n = n"

text \<open>\<open>Math.min\<close> and \<open>Math.max\<close> return \<open>NaN\<close> as soon as one argument is \<open>NaN\<close>.\<close>

definition Math_min :: "jsnum \<Rightarrow> jsnum \<Rightarrow> jsnum" where
  "Math_min a b = (if a = NaN \<or> b = NaN then NaN else if js_le a b then a else b)"

definition Math_max :: "jsnum \<Rightarrow> jsnum \<Rightarrow> jsnum" where
  "Math_max a b = (if a = NaN \<or> b = NaN then NaN else if js_le a b then b else a)"

text \<open>
  White space as \<open>String.prototype.trim\<close>, \<open>parseInt\<close> and the regular expression
  class \<open>\s\<close> understand it: tab, line feed, vertical tab, form feed, carriage return,
  space, no-break space, the Unicode space separators, the line and paragraph separators
  and the byte order mark.
\<close>

definition is_space :: "nat \<Rightarrow> bool" where
  "is_space c =
     (c \<in> {9, 10, 11, 12, 13, 32, 160, 5760, 8232, 8233, 8239, 8287, 12288, 65279}
      \<or> (8192 \<le> c \<and> c \<le> 8202))"

definition trim :: "jsstring \<Rightarrow> jsstring" where
  "trim s = rev (dropWhile is_space (rev (dropWhile is_space s)))"

text \<open>The decimal digits of a natural number, as a template literal prints it.\<close>

fun dec :: "nat \<Rightarrow> jsstring" where
  "dec n = (if n < 10 then [48 + n] else dec (n div 10) @ [48 + n mod 10])"

declare dec.simps [simp del]

text \<open>
  \<open>parseInt(s)\<close> without a radix: leading white space is skipped, a sign is read, the
  prefix \<open>0x\<close> or \<open>0X\<close> selects radix 16, and the longest run of digits is converted;
  no digit at all gives \<open>NaN\<close>, here \<open>None\<close>. The value is exact, as it is in
  JavaScript below \<open>2^53\<close>.
\<close>

definition digit_of :: "nat \<Rightarrow> nat \<Rightarrow> nat option" where
  "digit_of radix c =
     (let v = (if 48 \<le> c \<and> c \<le> 57 then c - 48
               else if 97 \<le> c \<and> c \<le> 122 then c - 87
               else if 65 \<le> c \<and> c \<le> 90 then c - 55
               else 36)
      in if v < radix then Some v else None)"

definition digits_value :: "nat \<Rightarrow> jsstring \<Rightarrow> nat" where
  "digits_value radix ds =
     foldl (\<lambda>acc c. acc * radix + (case digit_of radix c of Some v \<Rightarrow> v | None \<Rightarrow> 0)) 0 ds"

definition parseInt :: "jsstring \<Rightarrow> int option" where
  "parseInt str =
     (let s = dropWhile is_space str;
          neg = (case s of c # _ \<Rightarrow> c = 45 | [] \<Rightarrow> False);
          s1 = (case s of c # t \<Rightarrow> if c = 45 \<or> c = 43 then t else s | [] \<Rightarrow> s);
          hex = (case s1 of a # b # _ \<Rightarrow> a = 48 \<and> (b = 120 \<or> b = 88) | _ \<Rightarrow> False);
          radix = (if hex then 16 else 10);
          s2 = (if hex then drop 2 s1 else s1);
          ds = takeWhile (\<lambda>c. digit_of radix c \<noteq> None) s2
      in if ds = [] then None
         else Some ((if neg then - 1 else 1) * int (digits_value radix ds)))"

text \<open>\<open>parseInt(s) || null\<close> and \<open>parseInt(s) || 0\<close>: \<open>NaN\<close> and \<open>0\<close> are falsy.\<close>

definition parseInt_or_null :: "jsstring \<Rightarrow> int option" where
  "parseInt_or_null s = (case parseInt s of None \<Rightarrow> None | Some n \<Rightarrow> if n = 0 then None else Some n)"

definition parseInt_or_0 :: "jsstring \<Rightarrow> int" where
  "parseInt_or_0 s = (case parseInt s of None \<Rightarrow> 0 | Some n \<Rightarrow> n)"

text \<open>\<open>response.ok\<close> of the fetch API.\<close>

definition http_ok :: "nat \<Rightarrow> bool" where
  "http_ok status = (200 \<le> status \<and> status \<le> 299)"

text \<open>
  Exceptions: a rejected \<open>fetch\<close>, \<open>throw new Error(message)\<close>, and the
  \<open>TypeError\<close> of a property read on \<open>null\<close>.
\<close>

datatype exn = FetchFailed | Error jsstring | TypeError

section \<open>Compatibility score buckets (server/openrouter)\<close>

text \<open>
  \<^verbatim>\<open>
  function scoreToColor(score: number): "green" | "yellow" | "red" {
    if (score >= 75) return "green";
    if (score >= 40) return "yellow";
    return "red";
  }
  \<close>
\<close>

definition scoreToColor :: "jsnum \<Rightarrow> jsstring" where
  "scoreToColor score =
     (if js_ge score (Fin 75) then js ''green''
      else if js_ge score (Fin 40) then js ''yellow''
      else js ''red'')"

section \<open>The store (shared/schema)\<close>

text \<open>
  Each table is the list of its rows, in insertion order. Columns that no modelled
  statement reads or writes are left out (the profile columns of \<open>users\<close>, the JSON copy
  of a resume). A \<open>serial\<close> key comes from a counter kept beside the tables. A
  \<open>select\<close> without \<open>order by\<close> returns rows in table order, so
  \<open>const [row] = await db.select()...\<close> is the first matching row. The insert into
  \<open>applications\<close> is checked against the constraints of the schema that a request can
  violate (see \<open>insert_application\<close>); the other statements complete.
\<close>

record user =
  u_id :: jsstring
  u_hhAccessToken :: "jsstring option"
  u_hhRefreshToken :: "jsstring option"
  u_hhTokenExpiresAt :: "int option"

record resume =
  r_id :: nat
  r_userId :: "jsstring option"
  r_hhResumeId :: "jsstring option"
  r_title :: "jsstring option"
  r_content :: jsstring
  r_selected :: bool
  r_updatedAt :: int

record application =
  a_id :: nat
  a_userId :: "jsstring option"
  a_vacancyId :: "jsstring option"
  a_jobId :: "int option"
  a_jobTitle :: jsstring
  a_company :: jsstring
  a_resumeId :: "nat option"
  a_coverLetter :: "jsstring option"
  a_hhNegotiationId :: "jsstring option"
  a_status :: jsstring
  a_errorReason :: "jsstring option"
  a_appliedAt :: int

record swipe =
  s_id :: nat
  s_userId :: jsstring
  s_vacancyId :: jsstring
  s_direction :: jsstring
  s_createdAt :: int

record ai_compatibility =
  c_id :: nat
  c_userId :: jsstring
  c_vacancyId :: jsstring
  c_score :: int
  c_color :: jsstring
  c_explanation :: jsstring
  c_createdAt :: int

record db =
  users :: "user list"
  resumes :: "resume list"
  applications :: "application list"
  swipes :: "swipe list"
  aiCompatibility :: "ai_compatibility list"
  resumes_seq :: nat
  applications_seq :: nat
  swipes_seq :: nat

text \<open>
  \<open>db.select().from(resumes).where(and(eq(resumes.userId, userId), eq(resumes.selected,
  true)))\<close>, first row. With \<open>userId\<close> undefined or null the comparison is with SQL
  \<open>NULL\<close> and no row matches.
\<close>

definition selected_resume :: "db \<Rightarrow> jsstring option \<Rightarrow> resume option" where
  "selected_resume d userId =
     (case userId of
        None \<Rightarrow> None
      | Some u \<Rightarrow> find (\<lambda>r. r_userId r = Some u \<and> r_selected r) (resumes d))"

text \<open>
  \<open>db.insert(applications).values(row)\<close>. The column \<open>job_id\<close> is a 32-bit integer:
  a value outside its range is refused when the statement is bound, before a key is
  drawn. The column \<open>user_id\<close> references \<open>users.id\<close>: a user id without a row in
  \<open>users\<close> is refused after the key has been drawn, and the row is not kept. Either
  way the statement throws.
\<close>

datatype insert_error = OutOfRange | ForeignKeyViolation

definition int4 :: "int \<Rightarrow> bool" where
  "int4 n = (- 2147483648 \<le> n \<and> n \<le> 2147483647)"

definition insert_application :: "db \<Rightarrow> application \<Rightarrow> insert_error \<times> db + db" where
  "insert_application d row =
     (if (case a_jobId row of None \<Rightarrow> False | Some n \<Rightarrow> \<not> int4 n)
      then Inl (OutOfRange, d)
      else if (case a_userId row of
                 None \<Rightarrow> False
               | Some u \<Rightarrow> find (\<lambda>usr. u_id usr = u) (users d) = None)
      then Inl (ForeignKeyViolation, d\<lparr>applications_seq := Suc (applications_seq d)\<rparr>)
      else Inr (d\<lparr>applications := applications d @ [row],
                  applications_seq := Suc (applications_seq d)\<rparr>))"

text \<open>\<open>storage.deleteCompatibility(userId, vacancyId)\<close>.\<close>

definition deleteCompatibility :: "db \<Rightarrow> jsstring \<Rightarrow> jsstring \<Rightarrow> db" where
  "deleteCompatibility d userId vacancyId =
     d\<lparr>aiCompatibility :=
         filter (\<lambda>c. \<not> (c_userId c = userId \<and> c_vacancyId c = vacancyId)) (aiCompatibility d)\<rparr>"

text \<open>
  The object given to \<open>db.update(applications).set({...})\<close>: a field is \<open>None\<close> when its
  key is not in the object. \<open>hhNegotiationId\<close> can be set to \<open>null\<close>, hence the second
  option.
\<close>

record app_set =
  set_coverLetter :: "jsstring option"
  set_resumeId :: "nat option"
  set_status :: "jsstring option"
  set_errorReason :: "jsstring option"
  set_hhNegotiationId :: "jsstring option option"

definition apply_set :: "app_set \<Rightarrow> application \<Rightarrow> application" where
  "apply_set st a =
     a\<lparr>a_coverLetter := (case set_coverLetter st of None \<Rightarrow> a_coverLetter a | Some c \<Rightarrow> Some c),
       a_resumeId := (case set_resumeId st of None \<Rightarrow> a_resumeId a | Some r \<Rightarrow> Some r),
       a_status := (case set_status st of None \<Rightarrow> a_status a | Some v \<Rightarrow> v),
       a_errorReason := (case set_errorReason st of None \<Rightarrow> a_errorReason a | Some e \<Rightarrow> Some e),
       a_hhNegotiationId :=
         (case set_hhNegotiationId st of None \<Rightarrow> a_hhNegotiationId a | Some n \<Rightarrow> n)\<rparr>"

text \<open>\<open>db.update(applications).set(st).where(eq(applications.id, appId))\<close>.\<close>

definition update_application :: "db \<Rightarrow> nat \<Rightarrow> app_set \<Rightarrow> db" where
  "update_application d appId st =
     d\<lparr>applications := map (\<lambda>a. if a_id a = appId then apply_set st a else a) (applications d)\<rparr>"

section \<open>Cover letter generator (server/openrouter)\<close>

text \<open>The Cyrillic literals of the server, as UTF-16 code units.\<close>

definition fallback_text :: jsstring where
  \<comment> \<open>the template of \<open>fallbackLetter\<close>, trimmed\<close>
  "fallback_text = 
     [1048, 1084, 1077, 1102, 32, 1088, 1077, 1083, 1077, 1074, 1072, 1085, 1090, 1085, 1099,
      1081, 32, 1086, 1087, 1099, 1090, 32, 1088, 1072, 1073, 1086, 1090, 1099, 32, 1080,
      32, 1079, 1072, 1085, 1080, 1084, 1072, 1083, 1089, 1103, 32, 1088, 1072, 1079, 1074,
      1080, 1090, 1080, 1077, 1084, 32, 1084, 1072, 1088, 1082, 1077, 1090, 1080, 1085,
      1075, 1086, 1074, 1099, 1093, 32, 1080, 32, 1087, 1088, 1086, 1076, 1091, 1082, 1090,
      1086, 1074, 1099, 1093, 32, 1085, 1072, 1087, 1088, 1072, 1074, 1083, 1077, 1085,
      1080, 1081, 46, 32, 1056, 1072, 1073, 1086, 1090, 1072, 1083, 32, 1089, 32, 1072,
      1085, 1072, 1083, 1080, 1090, 1080, 1082, 1086, 1081, 44, 32, 1075, 1080, 1087, 1086,
      1090, 1077, 1079, 1072, 1084, 1080, 44, 32, 1087, 1088, 1086, 1094, 1077, 1089, 1089,
      1072, 1084, 1080, 32, 1080, 32, 1091, 1083, 1091, 1095, 1096, 1077, 1085, 1080, 1077,
      1084, 32, 1084, 1077, 1090, 1088, 1080, 1082, 46, 10, 10, 1052, 1086, 1081, 32, 1086,
      1087, 1099, 1090, 32, 1080, 32, 1085, 1072, 1074, 1099, 1082, 1080, 32, 1087, 1086,
      1079, 1074, 1086, 1083, 1103, 1102, 1090, 32, 1079, 1072, 1082, 1088, 1099, 1074,
      1072, 1090, 1100, 32, 1079, 1072, 1076, 1072, 1095, 1080, 32, 1087, 1086, 32, 1088,
      1072, 1079, 1074, 1080, 1090, 1080, 1102, 32, 1087, 1088, 1086, 1076, 1091, 1082,
      1090, 1072, 32, 1080, 32, 1084, 1072, 1088, 1082, 1077, 1090, 1080, 1085, 1075, 1086,
      1074, 1099, 1093, 32, 1085, 1072, 1087, 1088, 1072, 1074, 1083, 1077, 1085, 1080,
      1081, 46]"

text \<open>
  \<open>sanitize\<close>: \<open>text.replace(/[*#_\-]/g, " ").replace(/\s+/g, " ").trim()\<close>.
\<close>

definition is_markup :: "nat \<Rightarrow> bool" where
  "is_markup c = (c = 42 \<or> c = 35 \<or> c = 95 \<or> c = 45)"

function collapse_spaces :: "jsstring \<Rightarrow> jsstring" where
  "collapse_spaces [] = []"
| "collapse_spaces (c # cs) =
     (if is_space c then 32 # collapse_spaces (dropWhile is_space cs)
      else c # collapse_spaces cs)"
  by pat_completeness auto
termination
  by (relation "measure length") (auto simp: length_dropWhile_le less_Suc_eq_le)

definition sanitize :: "jsstring \<Rightarrow> jsstring" where
  "sanitize text = trim (collapse_spaces (map (\<lambda>c. if is_markup c then 32 else c) text))"

text \<open>The \<open>Job\<close> object built by the caller of the generator.\<close>

record job =
  j_id :: int
  j_title :: jsstring
  j_company :: jsstring
  j_salary :: jsstring
  j_description :: jsstring
  j_tags :: "jsstring list"

definition fallbackLetter :: "job \<Rightarrow> jsstring" where
  "fallbackLetter vacancy = fallback_text"

text \<open>
  What the chat-completion endpoint does with the request: the call throws (the fetch is
  rejected, or the body is not JSON), the response is not \<open>ok\<close>, or the body is read and
  \<open>data?.choices?.[0]?.message?.content\<close> is a string or absent.
\<close>

datatype llm_reply = LlmThrows | LlmNotOk | LlmContent "jsstring option"

text \<open>
  \<open>generateCoverLetter(resume, vacancy)\<close>. The prompt, which embeds both arguments, goes
  to the endpoint; its text is not modelled, since the reply is an input of the model.
  Every branch returns a string.
\<close>

definition generateCoverLetter ::
  "jsstring option \<Rightarrow> llm_reply \<Rightarrow> jsstring \<Rightarrow> job \<Rightarrow> jsstring" where
  "generateCoverLetter apiKey reply resume vacancy =
     (if \<not> truthy apiKey then fallbackLetter vacancy
      else case reply of
             LlmThrows \<Rightarrow> fallbackLetter vacancy
           | LlmNotOk \<Rightarrow> fallbackLetter vacancy
           | LlmContent t \<Rightarrow>
               (case t of
                  None \<Rightarrow> fallbackLetter vacancy
                | Some text \<Rightarrow> if text = [] then fallbackLetter vacancy else sanitize (trim text)))"

section \<open>Token manager and negotiation client (server/hhAuth)\<close>

record token_response =
  access_token :: jsstring
  refresh_token :: jsstring
  expires_in :: int

text \<open>The token endpoint's answer to a refresh: a rejected fetch, or a status and a body.\<close>

datatype token_http = TokenFetchFails | TokenHttp nat token_response

definition refreshHHToken :: "token_http \<Rightarrow> exn + token_response" where
  "refreshHHToken h =
     (case h of
        TokenFetchFails \<Rightarrow> Inl FetchFailed
      | TokenHttp status body \<Rightarrow>
          if \<not> http_ok status then Inl (Error (js ''Token refresh failed: '' @ dec status))
          else Inr body)"

text \<open>
  What a handler does to the outside, in order: the call of the generator with its two
  arguments, the refresh of a token, the submission to the negotiations endpoint with
  its four arguments, and each update of the applications table.
\<close>

datatype event =
    EvGenerate jsstring job
  | EvRefresh jsstring
  | EvApply jsstring jsstring jsstring jsstring
  | EvUpdate nat app_set

text \<open>
  \<open>getValidAccessToken(userId)\<close>: the stored token while it has not expired, otherwise a
  refreshed one, which is stored; \<open>null\<close> when tokens are missing or the refresh throws.
  \<open>now\<close> is the clock at the call, \<open>later\<close> the clock after the refresh.
\<close>

definition getValidAccessToken ::
  "int \<Rightarrow> int \<Rightarrow> token_http \<Rightarrow> db \<Rightarrow> jsstring \<Rightarrow> db \<times> jsstring option \<times> event list" where
  "getValidAccessToken now later h d userId =
     (case find (\<lambda>u. u_id u = userId) (users d) of
        None \<Rightarrow> (d, None, [])
      | Some usr \<Rightarrow>
          if \<not> truthy (u_hhAccessToken usr) \<or> \<not> truthy (u_hhRefreshToken usr)
          then (d, None, [])
          else if (case u_hhTokenExpiresAt usr of None \<Rightarrow> False | Some expiresAt \<Rightarrow> expiresAt > now)
          then (d, u_hhAccessToken usr, [])
          else (let ev = [EvRefresh (or_else (u_hhRefreshToken usr) [])]
                in case refreshHHToken h of
                     Inl err \<Rightarrow> (d, None, ev)
                   | Inr tokens \<Rightarrow>
                       (d\<lparr>users :=
                            map (\<lambda>u. if u_id u = userId
                                      then u\<lparr>u_hhAccessToken := Some (access_token tokens),
                                             u_hhRefreshToken := Some (refresh_token tokens),
                                             u_hhTokenExpiresAt :=
                                               Some (later + expires_in tokens * 1000)\<rparr>
                                      else u) (users d)\<rparr>,
                        Some (access_token tokens), ev)))"

text \<open>
  The negotiations endpoint's answer: a rejected fetch, or a status, the \<open>Location\<close>
  header and the body. The body does not parse as JSON (the client then takes the empty
  object), or it is the JSON value \<open>null\<close>, or it is another JSON value, of which only
  \<open>description\<close> and \<open>error\<close> are read here (both absent on a number, a string, a
  boolean or an array); the \<open>errors\<close> list is passed on to the legacy route only.
\<close>

record error_data =
  ed_description :: "jsstring option"
  ed_error :: "jsstring option"

datatype json_body = BodyUnparsable | BodyNull | BodyValue error_data

datatype negotiation_http = NegFetchFails | NegHttp nat "jsstring option" json_body

record negotiation_response =
  n_id :: "jsstring option"
  n_error :: "jsstring option"

text \<open>
  \<open>location.split("/").pop()\<close>: the text after the last slash. In \<open>applyToVacancy\<close>
  the body of an answer that is not \<open>ok\<close> is read with
  \<open>response.json().catch(() => ({}))\<close>; on the body \<open>null\<close> the read of
  \<open>errorData.description\<close> throws.
\<close>

definition last_segment :: "jsstring \<Rightarrow> jsstring" where
  "last_segment s = rev (takeWhile (\<lambda>c. c \<noteq> 47) (rev s))"

definition applyToVacancy :: "negotiation_http \<Rightarrow> exn + negotiation_response" where
  "applyToVacancy h =
     (case h of
        NegFetchFails \<Rightarrow> Inl FetchFailed
      | NegHttp status location body \<Rightarrow>
          if status = 201 \<and> truthy location
          then Inr \<lparr>n_id = map_option last_segment location, n_error = None\<rparr>
          else if \<not> http_ok status
          then (case body of
                  BodyNull \<Rightarrow> Inl TypeError
                | BodyUnparsable \<Rightarrow>
                    Inr \<lparr>n_id = None, n_error = Some (js ''HTTP '' @ dec status)\<rparr>
                | BodyValue errorData \<Rightarrow>
                    Inr \<lparr>n_id = None,
                        n_error = Some (or_else (ed_description errorData)
                                          (or_else (ed_error errorData)
                                             (js ''HTTP '' @ dec status)))\<rparr>)
          else Inr \<lparr>n_id = None, n_error = None\<rparr>)"

section \<open>Asynchronous application (server/routes, POST /api/apply/async)\<close>

definition placeholder_title :: jsstring where
  "placeholder_title = [1042, 1072, 1082, 1072, 1085, 1089, 1080, 1103]"

definition placeholder_company :: jsstring where
  "placeholder_company = [1050, 1086, 1084, 1087, 1072, 1085, 1080, 1103]"

definition msg_queued :: jsstring where
  "msg_queued = [1054, 1090, 1082, 1083, 1080, 1082, 32, 1087, 1086, 1089, 1090, 1072, 1074,
      1083, 1077, 1085, 32, 1074, 32, 1086, 1095, 1077, 1088, 1077, 1076, 1100]"

definition err_generation :: jsstring where
  "err_generation = [1054, 1096, 1080, 1073, 1082, 1072, 32, 1075, 1077, 1085, 1077, 1088,
      1072, 1094, 1080, 1080, 32, 1089, 1086, 1087, 1088, 1086, 1074, 1086, 1076, 1080, 1090,
      1077, 1083, 1100, 1085, 1086, 1075, 1086, 32, 1087, 1080, 1089, 1100, 1084, 1072, 46]"

definition err_not_authorized :: jsstring where
  "err_not_authorized = [1053, 1077, 32, 1072, 1074, 1090, 1086, 1088, 1080, 1079, 1086, 1074,
      1072, 1085, 32, 1085, 1072, 32, 104, 104, 46, 114, 117]"

definition err_no_resume :: jsstring where
  "err_no_resume = [1053, 1077, 32, 1074, 1099, 1073, 1088, 1072, 1085, 1086, 32, 1088, 1077,
      1079, 1102, 1084, 1077]"

definition err_internal :: jsstring where
  "err_internal = [1042, 1085, 1091, 1090, 1088, 1077, 1085, 1085, 1103, 1103, 32, 1086, 1096,
      1080, 1073, 1082, 1072, 32, 1086, 1073, 1088, 1072, 1073, 1086, 1090, 1082, 1080]"

text \<open>
  The request body, as the client types it: strings or absent, a boolean \<open>isDemo\<close>
  (absent is \<open>False\<close>), and the vacancy snapshot \<open>vacancyData\<close>.
\<close>

record vacancy_data =
  vd_title :: "jsstring option"
  vd_company :: "jsstring option"
  vd_salary :: "jsstring option"
  vd_description :: "jsstring option"
  vd_tags :: "jsstring list option"

record apply_request =
  q_userId :: "jsstring option"
  q_vacancyId :: "jsstring option"
  q_vacancyData :: "vacancy_data option"
  q_resumeText :: "jsstring option"
  q_isDemo :: bool

datatype apply_body =
    ErrorBody jsstring
  | QueuedBody jsstring nat jsstring

datatype 'b response = Response nat 'b

text \<open>
  The variables captured by the callback given to \<open>setImmediate\<close>: the id of the row
  just inserted and the fields of the request. \<open>vacancyId\<close> has passed the presence test.
\<close>

record background_task =
  t_appId :: nat
  t_userId :: "jsstring option"
  t_vacancyId :: jsstring
  t_vacancyData :: "vacancy_data option"
  t_resumeText :: "jsstring option"
  t_isDemo :: bool

text \<open>
  The handler up to \<open>res.json\<close>. It returns the store, the response and the task it
  schedules. \<open>res.json\<close> answers with status 200. When the insert throws, the
  handler's \<open>catch\<close> answers 500 and nothing after the insert is done.
\<close>

definition apply_async :: "int \<Rightarrow> db \<Rightarrow> apply_request \<Rightarrow> db \<times> apply_body response \<times> background_task option" where
  "apply_async now d req =
     (if \<not> truthy (q_vacancyId req)
      then (d, Response 400 (ErrorBody (js ''Vacancy ID required'')), None)
      else
        let vacancyId = or_else (q_vacancyId req) [];
            jobTitle = or_else (Option.bind (q_vacancyData req) vd_title) placeholder_title;
            company = or_else (Option.bind (q_vacancyData req) vd_company) placeholder_company;
            jobId = parseInt_or_null vacancyId;
            pendingApp = \<lparr>a_id = Suc (applications_seq d),
                          a_userId = or_null (q_userId req),
                          a_vacancyId = Some vacancyId,
                          a_jobId = jobId,
                          a_jobTitle = jobTitle,
                          a_company = company,
                          a_resumeId = None,
                          a_coverLetter = None,
                          a_hhNegotiationId = None,
                          a_status = js ''pending'',
                          a_errorReason = None,
                          a_appliedAt = now\<rparr>
        in case insert_application d pendingApp of
             Inl (error, d0) \<Rightarrow>
               (d0, Response 500 (ErrorBody (js ''Failed to queue application'')), None)
           | Inr d1 \<Rightarrow>
               (let d2 = (case q_userId req of
                            None \<Rightarrow> d1
                          | Some u \<Rightarrow> if u = [] then d1 else deleteCompatibility d1 u vacancyId)
                in (d2,
                    Response 200 (QueuedBody (js ''queued'') (a_id pendingApp) msg_queued),
                    Some \<lparr>t_appId = a_id pendingApp,
                          t_userId = q_userId req,
                          t_vacancyId = vacancyId,
                          t_vacancyData = q_vacancyData req,
                          t_resumeText = q_resumeText req,
                          t_isDemo = q_isDemo req\<rparr>)))"

definition no_set :: app_set where
  "no_set = \<lparr>set_coverLetter = None, set_resumeId = None, set_status = None,
             set_errorReason = None, set_hhNegotiationId = None\<rparr>"

text \<open>The outside world of one background task.\<close>

record world =
  w_now :: int
  w_later :: int
  w_apiKey :: "jsstring option"
  w_llm :: llm_reply
  w_token :: token_http
  w_negotiations :: negotiation_http

text \<open>
  The callback given to \<open>setImmediate\<close>, in three parts: the vacancy object it builds,
  the resume text it loads from the store, and the letter it asks the generator for.
  The request's \<open>resumeText\<close> is only written to the log.
\<close>

definition task_vacancy :: "background_task \<Rightarrow> job" where
  "task_vacancy t =
     \<lparr>j_id = parseInt_or_0 (t_vacancyId t),
      j_title = or_else (Option.bind (t_vacancyData t) vd_title) [],
      j_company = or_else (Option.bind (t_vacancyData t) vd_company) [],
      j_salary = or_else (Option.bind (t_vacancyData t) vd_salary) [],
      j_description = or_else (Option.bind (t_vacancyData t) vd_description) [],
      j_tags = (case Option.bind (t_vacancyData t) vd_tags of None \<Rightarrow> [] | Some tags \<Rightarrow> tags)\<rparr>"

definition resumeTextFinal :: "db \<Rightarrow> background_task \<Rightarrow> jsstring" where
  "resumeTextFinal d t =
     (case selected_resume d (t_userId t) of
        None \<Rightarrow> []
      | Some selectedResume \<Rightarrow> r_content selectedResume)"

definition task_coverLetter :: "world \<Rightarrow> db \<Rightarrow> background_task \<Rightarrow> jsstring" where
  "task_coverLetter w d t =
     generateCoverLetter (w_apiKey w) (w_llm w) (resumeTextFinal d t) (task_vacancy t)"

text \<open>
  The snapshot fields are strings and a list, so building the vacancy and the prompt
  cannot throw and the inner \<open>catch\<close> (which would put \<open>err_generation\<close> in place of
  the letter) is not entered; the outer \<open>catch\<close> is entered when the submission throws.
  The result is the store after the task and the events of the task.
\<close>

definition background :: "world \<Rightarrow> db \<Rightarrow> background_task \<Rightarrow> db \<times> event list" where
  "background w d t =
     (let appId = t_appId t;
          coverLetter = task_coverLetter w d t;
          ev0 = [EvGenerate (resumeTextFinal d t) (task_vacancy t)]
      in if t_isDemo t \<or> \<not> truthy (t_userId t)
         then (let st = no_set\<lparr>set_coverLetter := Some coverLetter,
                              set_status := Some (js ''demo'')\<rparr>
               in (update_application d appId st, ev0 @ [EvUpdate appId st]))
         else
           let userId = or_else (t_userId t) [];
               (d1, accessToken, evT) =
                  getValidAccessToken (w_now w) (w_later w) (w_token w) d userId;
               ev1 = ev0 @ evT
           in if \<not> truthy accessToken
              then (let st = no_set\<lparr>set_coverLetter := Some coverLetter,
                                   set_status := Some (js ''failed''),
                                   set_errorReason := Some err_not_authorized\<rparr>
                    in (update_application d1 appId st, ev1 @ [EvUpdate appId st]))
              else
                let noResume = no_set\<lparr>set_coverLetter := Some coverLetter,
                                      set_status := Some (js ''failed''),
                                      set_errorReason := Some err_no_resume\<rparr>
                in case selected_resume d1 (Some userId) of
                     None \<Rightarrow> (update_application d1 appId noResume, ev1 @ [EvUpdate appId noResume])
                   | Some selectedResume \<Rightarrow>
                       if \<not> truthy (r_hhResumeId selectedResume)
                       then (update_application d1 appId noResume,
                             ev1 @ [EvUpdate appId noResume])
                       else
                         let ev2 = ev1 @ [EvApply (or_else accessToken []) (t_vacancyId t)
                                            (or_else (r_hhResumeId selectedResume) []) coverLetter]
                         in case applyToVacancy (w_negotiations w) of
                              Inl bgError \<Rightarrow>
                                (let st = no_set\<lparr>set_status := Some (js ''failed''),
                                                 set_errorReason := Some err_internal\<rparr>
                                 in (update_application d1 appId st, ev2 @ [EvUpdate appId st]))
                            | Inr result \<Rightarrow>
                                if truthy (n_error result)
                                then (let st = no_set\<lparr>set_coverLetter := Some coverLetter,
                                                      set_resumeId := Some (r_id selectedResume),
                                                      set_status := Some (js ''failed''),
                                                      set_errorReason := n_error result\<rparr>
                                      in (update_application d1 appId st,
                                          ev2 @ [EvUpdate appId st]))
                                else (let st = no_set\<lparr>set_coverLetter := Some coverLetter,
                                                      set_resumeId := Some (r_id selectedResume),
                                                      set_status := Some (js ''success''),
                                                      set_hhNegotiationId :=
                                                        Some (or_null (n_id result))\<rparr>
                                      in (update_application d1 appId st,
                                          ev2 @ [EvUpdate appId st])))"

text \<open>Reading a trace: the updates, the submissions, the resume texts given to the generator.\<close>

fun is_update :: "event \<Rightarrow> bool" where
  "is_update (EvUpdate _ _) = True"
| "is_update _ = False"

fun is_apply :: "event \<Rightarrow> bool" where
  "is_apply (EvApply _ _ _ _) = True"
| "is_apply _ = False"

fun generator_resumes :: "event list \<Rightarrow> jsstring list" where
  "generator_resumes [] = []"
| "generator_resumes (EvGenerate resume _ # es) = resume # generator_resumes es"
| "generator_resumes (_ # es) = generator_resumes es"

section \<open>Swipes (server/storage, POST /api/swipes)\<close>

definition createSwipe :: "int \<Rightarrow> db \<Rightarrow> jsstring \<Rightarrow> jsstring \<Rightarrow> jsstring \<Rightarrow> db \<times> swipe" where
  "createSwipe now d userId vacancyId direction =
     (let created = \<lparr>s_id = Suc (swipes_seq d), s_userId = userId, s_vacancyId = vacancyId,
                      s_direction = direction, s_createdAt = now\<rparr>
      in (d\<lparr>swipes := swipes d @ [created], swipes_seq := Suc (swipes_seq d)\<rparr>, created))"

definition getSwipedVacancyIds :: "db \<Rightarrow> jsstring \<Rightarrow> jsstring list" where
  "getSwipedVacancyIds d userId =
     map s_vacancyId (filter (\<lambda>s. s_userId s = userId) (swipes d))"

definition hasSwipedVacancy :: "db \<Rightarrow> jsstring \<Rightarrow> jsstring \<Rightarrow> bool" where
  "hasSwipedVacancy d userId vacancyId =
     (find (\<lambda>s. s_userId s = userId \<and> s_vacancyId s = vacancyId) (swipes d) \<noteq> None)"

record swipe_request =
  sq_vacancyId :: "jsstring option"
  sq_direction :: "jsstring option"
  sq_userId :: "jsstring option"

datatype swipe_body =
    SwipeError jsstring
  | AlreadySwiped
  | SwipeCreated swipe

text \<open>
  \<open>AlreadySwiped\<close> is the body \<open>{ ok: true, alreadySwiped: true }\<close>, \<open>SwipeCreated\<close> the
  body \<open>{ ok: true, swipe }\<close>.
\<close>

definition post_swipes :: "int \<Rightarrow> db \<Rightarrow> swipe_request \<Rightarrow> db \<times> swipe_body response" where
  "post_swipes now d req =
     (if \<not> truthy (sq_userId req)
      then (d, Response 400 (SwipeError (js ''User ID is required'')))
      else if \<not> truthy (sq_vacancyId req)
      then (d, Response 400 (SwipeError (js ''Vacancy ID is required'')))
      else if \<not> truthy (sq_direction req)
              \<or> or_else (sq_direction req) [] \<notin> set [js ''left'', js ''right'']
      then (d, Response 400 (SwipeError (js ''Direction must be 'left' or 'right'' @ [39])))
      else
        let userId = or_else (sq_userId req) [];
            vacancyId = or_else (sq_vacancyId req) [];
            direction = or_else (sq_direction req) [];
            alreadySwiped = hasSwipedVacancy d userId vacancyId
        in if alreadySwiped then (d, Response 200 AlreadySwiped)
           else
             let (d1, swipe) = createSwipe now d userId vacancyId direction;
                 d2 = deleteCompatibility d1 userId vacancyId
             in (d2, Response 201 (SwipeCreated swipe)))"

definition swipe_key :: "swipe \<Rightarrow> jsstring \<times> jsstring" where
  "swipe_key s = (s_userId s, s_vacancyId s)"

section \<open>Vacancy search (server/routes, GET /api/hh/jobs)\<close>

record hh_salary =
  sal_from :: "nat option"
  sal_to :: "nat option"
  sal_currency :: jsstring

record hh_vacancy =
  v_id :: jsstring
  v_name :: jsstring
  v_employer_name :: jsstring
  v_logo_240 :: "jsstring option"
  v_logo_original :: "jsstring option"
  v_salary :: "hh_salary option"
  v_requirement :: "jsstring option"
  v_responsibility :: "jsstring option"
  v_area_name :: jsstring
  v_schedule_id :: "jsstring option"
  v_employment_id :: "jsstring option"
  v_professional_roles :: "jsstring list"
  v_alternate_url :: jsstring

record hh_job =
  hj_id :: jsstring
  hj_title :: jsstring
  hj_company :: jsstring
  hj_salary :: jsstring
  hj_description :: jsstring
  hj_descriptionFull :: jsstring
  hj_location :: jsstring
  hj_employmentType :: jsstring
  hj_tags :: "jsstring list"
  hj_url :: jsstring
  hj_logoUrl :: "jsstring option"

definition salary_unknown :: jsstring where
  "salary_unknown = [1047, 1072, 1088, 1087, 1083, 1072, 1090, 1072, 32, 1085, 1077, 32, 1091,
      1082, 1072, 1079, 1072, 1085, 1072]"

definition description_missing :: jsstring where
  "description_missing = [1054, 1087, 1080, 1089, 1072, 1085, 1080, 1077, 32, 1086, 1090, 1089,
      1091, 1090, 1089, 1090, 1074, 1091, 1077, 1090]"

text \<open>\<open>Math.round(n / 1000)\<close> for a whole amount \<open>n\<close>.\<close>

definition thousands :: "nat \<Rightarrow> nat" where
  "thousands n = (n + 500) div 1000"

definition formatSalary :: "hh_salary option \<Rightarrow> jsstring" where
  "formatSalary salary =
     (case salary of
        None \<Rightarrow> salary_unknown
      | Some sal \<Rightarrow>
          let currencySymbol = (if sal_currency sal = js ''RUR'' then [8381] else sal_currency sal);
              from = (case sal_from sal of None \<Rightarrow> 0 | Some n \<Rightarrow> n);
              to = (case sal_to sal of None \<Rightarrow> 0 | Some n \<Rightarrow> n)
          in if from \<noteq> 0 \<and> to \<noteq> 0
             then dec (thousands from) @ [8211] @ dec (thousands to) @ js ''k '' @ currencySymbol
             else if from \<noteq> 0
             then [1086, 1090, 32] @ dec (thousands from) @ js ''k '' @ currencySymbol
             else if to \<noteq> 0
             then [1076, 1086, 32] @ dec (thousands to) @ js ''k '' @ currencySymbol
             else salary_unknown)"

definition mapEmploymentType :: "jsstring option \<Rightarrow> jsstring option \<Rightarrow> jsstring" where
  "mapEmploymentType employment schedule =
     (if schedule = Some (js ''remote'') then js ''remote''
      else if schedule = Some (js ''flexible'') then js ''hybrid''
      else if employment = Some (js ''full'') then js ''full-time''
      else if employment = Some (js ''part'') then js ''part-time''
      else js ''full-time'')"

text \<open>\<open>s.replace(/<[^>]*>/g, "")\<close>: every run from \<open><\<close> to the next \<open>>\<close> is removed.\<close>

function strip_tags :: "jsstring \<Rightarrow> jsstring" where
  "strip_tags [] = []"
| "strip_tags (c # cs) =
     (if c = 60 \<and> 62 \<in> set cs then strip_tags (tl (dropWhile (\<lambda>x. x \<noteq> 62) cs))
      else c # strip_tags cs)"
  by pat_completeness auto
termination
proof (relation "measure length")
  fix c :: nat and cs :: "nat list"
  have "length (tl (dropWhile (\<lambda>x. x \<noteq> 62) cs)) \<le> length cs"
    using length_dropWhile_le [of "\<lambda>x. x \<noteq> 62" cs] by simp
  then show "(tl (dropWhile (\<lambda>x. x \<noteq> 62) cs), c # cs) \<in> measure length" by simp
qed simp_all

text \<open>\<open>s.includes(pat)\<close> and \<open>s.replace(pat, rep)\<close> with a string pattern (first occurrence).\<close>

fun includes_str :: "jsstring \<Rightarrow> jsstring \<Rightarrow> bool" where
  "includes_str pat [] = (pat = [])"
| "includes_str pat (c # cs) = (take (length pat) (c # cs) = pat \<or> includes_str pat cs)"

fun replace_first :: "jsstring \<Rightarrow> jsstring \<Rightarrow> jsstring \<Rightarrow> jsstring" where
  "replace_first pat rep [] = (if pat = [] then rep else [])"
| "replace_first pat rep (c # cs) =
     (if take (length pat) (c # cs) = pat then rep @ drop (length pat) (c # cs)
      else c # replace_first pat rep cs)"

text \<open>
  The second request of \<open>adaptHHVacancy\<close>, for the full vacancy: it throws, it is not
  \<open>ok\<close>, or it gives the description and the names of the key skills (\<open>None\<close> when
  \<open>key_skills\<close> is not an array).
\<close>

datatype detail_http = DetailThrows | DetailNotOk | DetailOk "jsstring option" "jsstring list option"

definition adaptHHVacancy :: "(jsstring \<Rightarrow> detail_http) \<Rightarrow> hh_vacancy \<Rightarrow> hh_job" where
  "adaptHHVacancy fetch_detail vacancy =
     (let short = or_else (v_responsibility vacancy)
                    (or_else (v_requirement vacancy) description_missing);
          shortClean = strip_tags short;
          fullClean = (case fetch_detail (v_id vacancy) of
                         DetailOk description _ \<Rightarrow> strip_tags (or_else description [])
                       | _ \<Rightarrow> []);
          keySkills = (case fetch_detail (v_id vacancy) of
                         DetailOk _ (Some names) \<Rightarrow> filter (\<lambda>n. n \<noteq> []) names
                       | _ \<Rightarrow> []);
          logoUrl0 = (if truthy (v_logo_240 vacancy) then v_logo_240 vacancy
                      else if truthy (v_logo_original vacancy) then v_logo_original vacancy
                      else None);
          logoUrl = (case logoUrl0 of
                       None \<Rightarrow> None
                     | Some u \<Rightarrow> if includes_str (js ''employer-logo-round'') u
                                 then Some (replace_first (js ''employer-logo-round'')
                                              (js ''employer-logo'') u)
                                 else Some u);
          roles = filter (\<lambda>n. n \<noteq> []) (v_professional_roles vacancy);
          tags = take 6 (if length keySkills > 0 then keySkills else roles)
      in \<lparr>hj_id = v_id vacancy,
          hj_title = v_name vacancy,
          hj_company = v_employer_name vacancy,
          hj_salary = formatSalary (v_salary vacancy),
          hj_description = shortClean,
          hj_descriptionFull = fullClean,
          hj_location = v_area_name vacancy,
          hj_employmentType = mapEmploymentType (v_employment_id vacancy) (v_schedule_id vacancy),
          hj_tags = tags,
          hj_url = v_alternate_url vacancy,
          hj_logoUrl = logoUrl\<rparr>)"

text \<open>
  The search request to the job board: it throws, it is not \<open>ok\<close>, or it gives
  \<open>items\<close>, \<open>found\<close> and \<open>pages\<close>. The query string built from the filters selects
  what the board answers and is not modelled.
\<close>

datatype search_http = SearchThrows | SearchNotOk nat | SearchOk "hh_vacancy list" int int

record jobs_response =
  jr_error :: "jsstring option"
  jr_jobs :: "hh_job list"
  jr_hasMore :: bool
  jr_total :: int
  jr_batch :: int

definition jobs_failed :: "jobs_response response" where
  "jobs_failed = Response 500 \<lparr>jr_error = Some (js ''Failed to fetch jobs from HH.ru''),
                               jr_jobs = [], jr_hasMore = False, jr_total = 0, jr_batch = 1\<rparr>"

definition get_hh_jobs ::
  "search_http \<Rightarrow> (jsstring \<Rightarrow> detail_http) \<Rightarrow> db \<Rightarrow> jsstring option \<Rightarrow> jsstring option
     \<Rightarrow> jobs_response response" where
  "get_hh_jobs search fetch_detail d batchParam userId =
     (let batch = (case batchParam of
                     None \<Rightarrow> 1
                   | Some b \<Rightarrow> (case parseInt b of None \<Rightarrow> 1 | Some n \<Rightarrow> if n = 0 then 1 else n))
      in case search of
           SearchThrows \<Rightarrow> jobs_failed
         | SearchNotOk status \<Rightarrow> jobs_failed
         | SearchOk items totalFound pages \<Rightarrow>
             let jobs0 = map (adaptHHVacancy fetch_detail) items;
                 jobs = (if truthy userId
                         then (let swipedIds = getSwipedVacancyIds d (or_else userId [])
                               in filter (\<lambda>job. hj_id job \<notin> set swipedIds) jobs0)
                         else jobs0);
                 hasMore = (batch < pages)
             in Response 200 \<lparr>jr_error = None, jr_jobs = jobs, jr_hasMore = hasMore,
                              jr_total = totalFound, jr_batch = batch\<rparr>)"

definition response_body :: "'b response \<Rightarrow> 'b" where
  "response_body r = (case r of Response _ b \<Rightarrow> b)"

section \<open>Resume rows (server/storage, server/routes)\<close>

text \<open>
  \<open>getManualResume\<close>: the user's rows without an external id, newest first, limit 1.
  Among rows of equal \<open>updatedAt\<close> the first in table order is taken.
\<close>

definition getManualResume :: "db \<Rightarrow> jsstring \<Rightarrow> resume option" where
  "getManualResume d userId =
     (let rows = filter (\<lambda>r. r_userId r = Some userId \<and> r_hhResumeId r = None) (resumes d)
      in find (\<lambda>r. \<forall>r' \<in> set rows. r_updatedAt r' \<le> r_updatedAt r) rows)"

definition saveManualResume :: "int \<Rightarrow> db \<Rightarrow> jsstring \<Rightarrow> jsstring \<Rightarrow> db \<times> resume option" where
  "saveManualResume now d userId content =
     (case getManualResume d userId of
        Some existing \<Rightarrow>
          (let d1 = d\<lparr>resumes := map (\<lambda>r. if r_id r = r_id existing
                                            then r\<lparr>r_content := content, r_updatedAt := now\<rparr>
                                            else r) (resumes d)\<rparr>
           in (d1, find (\<lambda>r. r_id r = r_id existing) (resumes d1)))
      | None \<Rightarrow>
          (let created = \<lparr>r_id = Suc (resumes_seq d), r_userId = Some userId,
                           r_hhResumeId = None, r_title = None, r_content = content,
                           r_selected = False, r_updatedAt = now\<rparr>
           in (d\<lparr>resumes := resumes d @ [created], resumes_seq := Suc (resumes_seq d)\<rparr>,
               Some created)))"

datatype resume_body =
    ResumeError jsstring
  | ResumeRow "resume option"
  | ResumeRows "resume list" nat

text \<open>\<open>POST /api/resume\<close>; \<open>content\<close> is \<open>None\<close> when the body's field is not a string.\<close>

definition post_resume ::
  "int \<Rightarrow> db \<Rightarrow> jsstring option \<Rightarrow> jsstring option \<Rightarrow> db \<times> resume_body response" where
  "post_resume now d content userId =
     (case content of
        None \<Rightarrow> (d, Response 400 (ResumeError (js ''Content must be a string'')))
      | Some text \<Rightarrow>
          if \<not> truthy userId then (d, Response 400 (ResumeError (js ''User ID is required'')))
          else (let (d1, resume) = saveManualResume now d (or_else userId []) text
                in (d1, Response 201 (ResumeRow resume))))"

text \<open>
  \<open>POST /api/hh/resumes/select\<close>. The client sends the row id as a number; \<open>0\<close> fails
  the presence test. All rows of the user are deselected, then the row with that id and
  user is selected; when there is none the answer is 404, after the deselection.
\<close>

definition post_resumes_select ::
  "db \<Rightarrow> jsstring option \<Rightarrow> nat option \<Rightarrow> db \<times> resume_body response" where
  "post_resumes_select d userId resumeId =
     (if \<not> truthy userId \<or> resumeId = None \<or> resumeId = Some 0
      then (d, Response 400 (ResumeError (js ''User ID and Resume ID required'')))
      else
        let u = or_else userId [];
            rid = (case resumeId of None \<Rightarrow> 0 | Some n \<Rightarrow> n);
            d1 = d\<lparr>resumes := map (\<lambda>r. if r_userId r = Some u then r\<lparr>r_selected := False\<rparr> else r)
                                 (resumes d)\<rparr>;
            d2 = d1\<lparr>resumes := map (\<lambda>r. if r_id r = rid \<and> r_userId r = Some u
                                         then r\<lparr>r_selected := True\<rparr> else r) (resumes d1)\<rparr>;
            updated = find (\<lambda>r. r_id r = rid \<and> r_userId r = Some u) (resumes d2)
        in case updated of
             None \<Rightarrow> (d2, Response 404 (ResumeError (js ''Resume not found'')))
           | Some row \<Rightarrow> (d2, Response 200 (ResumeRow (Some row))))"

text \<open>
  One resume of the job board's list, with the outcome of \<open>getHHResumeDetail\<close> for it:
  \<open>None\<close> when the request throws, otherwise the title and the text that
  \<open>resumeToText\<close> makes of the detail. The text does not influence which rows are
  written or selected.
\<close>

record hh_resume_detail =
  rd_title :: jsstring
  rd_text :: jsstring

type_synonym hh_resume = "jsstring \<times> hh_resume_detail option"

text \<open>
  The loop of the OAuth callback (\<open>GET /auth/hh/callback\<close>) over the user's resumes: a
  known resume is refreshed, a new one is inserted with \<open>selected: true\<close>. A throwing
  detail request ends the loop; the handler logs it and goes on to the redirect.
\<close>

fun callback_sync :: "int \<Rightarrow> jsstring \<Rightarrow> hh_resume list \<Rightarrow> db \<Rightarrow> db" where
  "callback_sync now userId [] d = d"
| "callback_sync now userId ((hhId, None) # rest) d = d"
| "callback_sync now userId ((hhId, Some detail) # rest) d =
     (case find (\<lambda>r. r_userId r = Some userId \<and> r_hhResumeId r = Some hhId) (resumes d) of
        Some existing \<Rightarrow>
          callback_sync now userId rest
            (d\<lparr>resumes := map (\<lambda>r. if r_id r = r_id existing
                                    then r\<lparr>r_title := Some (rd_title detail),
                                           r_content := rd_text detail,
                                           r_updatedAt := now\<rparr>
                                    else r) (resumes d)\<rparr>)
      | None \<Rightarrow>
          callback_sync now userId rest
            (d\<lparr>resumes := resumes d @
                   [\<lparr>r_id = Suc (resumes_seq d), r_userId = Some userId,
                     r_hhResumeId = Some hhId, r_title = Some (rd_title detail),
                     r_content = rd_text detail, r_selected = True, r_updatedAt = now\<rparr>],
               resumes_seq := Suc (resumes_seq d)\<rparr>))"

text \<open>
  The loop of \<open>POST /api/hh/resumes/sync\<close>. \<open>synced\<close> is the list \<open>syncedResumes\<close>; a
  new resume is inserted with \<open>selected: syncedResumes.length === 0\<close>. The result is
  \<open>Inl\<close> with the store so far when a detail request throws.
\<close>

fun sync_loop ::
  "int \<Rightarrow> jsstring \<Rightarrow> hh_resume list \<Rightarrow> resume list \<Rightarrow> db \<Rightarrow> db + db \<times> resume list" where
  "sync_loop now userId [] synced d = Inr (d, synced)"
| "sync_loop now userId ((hhId, None) # rest) synced d = Inl d"
| "sync_loop now userId ((hhId, Some detail) # rest) synced d =
     (case find (\<lambda>r. r_userId r = Some userId \<and> r_hhResumeId r = Some hhId) (resumes d) of
        Some existing \<Rightarrow>
          (let d1 = d\<lparr>resumes := map (\<lambda>r. if r_id r = r_id existing
                                            then r\<lparr>r_title := Some (rd_title detail),
                                                   r_content := rd_text detail,
                                                   r_updatedAt := now\<rparr>
                                            else r) (resumes d)\<rparr>;
               updated = filter (\<lambda>r. r_id r = r_id existing) (resumes d1)
           in sync_loop now userId rest (synced @ take 1 updated) d1)
      | None \<Rightarrow>
          (let created = \<lparr>r_id = Suc (resumes_seq d), r_userId = Some userId,
                           r_hhResumeId = Some hhId, r_title = Some (rd_title detail),
                           r_content = rd_text detail, r_selected = (length synced = 0),
                           r_updatedAt = now\<rparr>
           in sync_loop now userId rest (synced @ [created])
                (d\<lparr>resumes := resumes d @ [created], resumes_seq := Suc (resumes_seq d)\<rparr>)))"

text \<open>
  \<open>POST /api/hh/resumes/sync\<close>. \<open>mine\<close> is the outcome of \<open>getHHResumes\<close>: \<open>None\<close> when
  it throws, otherwise the user's resumes on the job board.
\<close>

definition post_resumes_sync ::
  "int \<Rightarrow> int \<Rightarrow> token_http \<Rightarrow> hh_resume list option \<Rightarrow> db \<Rightarrow> jsstring option
     \<Rightarrow> db \<times> resume_body response" where
  "post_resumes_sync now later h mine d userId =
     (if \<not> truthy userId then (d, Response 400 (ResumeError (js ''User ID required'')))
      else
        let (d1, accessToken, ev) = getValidAccessToken now later h d (or_else userId [])
        in if \<not> truthy accessToken
           then (d1, Response 401 (ResumeError (js ''Not authenticated with HH.ru'')))
           else case mine of
                  None \<Rightarrow> (d1, Response 500 (ResumeError (js ''Failed to sync resumes'')))
                | Some hhResumes \<Rightarrow>
                    (case sync_loop now (or_else userId []) hhResumes [] d1 of
                       Inl d2 \<Rightarrow> (d2, Response 500 (ResumeError (js ''Failed to sync resumes'')))
                     | Inr (d2, synced) \<Rightarrow> (d2, Response 200 (ResumeRows synced (length synced)))))"

text \<open>
  The invariant of the data model: the rows of a user that come from the job board and
  are marked selected, and the statement that there is at most one.
\<close>

definition selected_external :: "db \<Rightarrow> jsstring \<Rightarrow> resume list" where
  "selected_external d userId =
     filter (\<lambda>r. r_userId r = Some userId \<and> r_hhResumeId r \<noteq> None \<and> r_selected r) (resumes d)"

definition one_selected :: "db \<Rightarrow> jsstring \<Rightarrow> bool" where
  "one_selected d userId = (length (selected_external d userId) \<le> 1)"

section \<open>Compatibility scorer (server/openrouter)\<close>

definition expl_insufficient :: jsstring where
  "expl_insufficient = [1053, 1077, 1076, 1086, 1089, 1090, 1072, 1090, 1086, 1095, 1085, 1086,
      32, 1076, 1072, 1085, 1085, 1099, 1093, 32, 1076, 1083, 1103, 32, 1072, 1085, 1072, 1083,
      1080, 1079, 1072, 32, 1089, 1086, 1074, 1084, 1077, 1089, 1090, 1080, 1084, 1086, 1089,
      1090, 1080, 46]"

definition expl_http_error :: jsstring where
  "expl_http_error = [1054, 1096, 1080, 1073, 1082, 1072, 32, 1072, 1085, 1072, 1083, 1080,
      1079, 1072, 46]"

definition expl_done :: jsstring where
  "expl_done = [1040, 1085, 1072, 1083, 1080, 1079, 32, 1074, 1099, 1087, 1086, 1083, 1085,
      1077, 1085, 46]"

definition expl_heuristic :: jsstring where
  "expl_heuristic = [1040, 1085, 1072, 1083, 1080, 1079, 32, 1085, 1072, 32, 1086, 1089, 1085,
      1086, 1074, 1077, 32, 1085, 1072, 1074, 1099, 1082, 1086, 1074, 32, 1080, 32, 1086, 1087,
      1099, 1090, 1072, 46]"

definition expl_no_score :: jsstring where
  "expl_no_score = [1053, 1077, 32, 1091, 1076, 1072, 1083, 1086, 1089, 1100, 32, 1080, 1079,
      1074, 1083, 1077, 1095, 1100, 32, 1086, 1094, 1077, 1085, 1082, 1091, 32, 1089, 1086,
      1074, 1084, 1077, 1089, 1090, 1080, 1084, 1086, 1089, 1090, 1080, 46]"

definition expl_exception :: jsstring where
  "expl_exception = [1054, 1096, 1080, 1073, 1082, 1072, 32, 1087, 1088, 1080, 32, 1088, 1072,
      1089, 1095, 1105, 1090, 1077, 32, 1089, 1086, 1074, 1084, 1077, 1089, 1090, 1080, 1084,
      1086, 1089, 1090, 1080, 46]"

text \<open>
  The object that \<open>JSON.parse\<close> makes of the model's answer. Its \<open>score\<close> is absent,
  \<open>null\<close>, a boolean or a number; \<open>to_number\<close> is the conversion that \<open>Math.round\<close>
  applies to it. Its \<open>explanation\<close> is falsy, a string, or another truthy value, on
  which \<open>sanitize\<close> throws a \<open>TypeError\<close>.
\<close>

datatype score_field = ScoreMissing | ScoreNull | ScoreBool bool | ScoreNumber jsnum

fun to_number :: "score_field \<Rightarrow> jsnum" where
  "to_number ScoreMissing = NaN"
| "to_number ScoreNull = Fin 0"
| "to_number (ScoreBool b) = (if b then Fin 1 else Fin 0)"
| "to_number (ScoreNumber n) = n"

datatype explanation_field = ExplFalsy | ExplString jsstring | ExplOther

datatype json_parse = JsonSyntaxError | JsonObject score_field explanation_field

text \<open>
  What the pattern matches of \<open>calculateCompatibility\<close> find in the answer text:
  \<open>jsonMatch\<close>, the outcome of \<open>JSON.parse\<close> on the first substring from \<open>{\<close> to the
  next \<open>}\<close> (\<open>None\<close> when there is none); \<open>scoreMatch\<close>, the digits captured by the
  first of the four score patterns that matches; \<open>explMatch\<close>, the text captured by the
  first of the three explanation patterns that matches.
\<close>

record answer_matches =
  am_jsonMatch :: "json_parse option"
  am_scoreMatch :: "jsstring option"
  am_explMatch :: "jsstring option"

datatype compat_reply = CompatThrows | CompatNotOk nat | CompatContent answer_matches

record compatibility_result =
  cr_vacancyId :: jsstring
  cr_score :: jsnum
  cr_color :: jsstring
  cr_explanation :: jsstring

text \<open>\<open>String(n)\<close> for an integer, and \<open>parseInt(s, 10)\<close> as a number.\<close>

definition String_int :: "int \<Rightarrow> jsstring" where
  "String_int n = (if n < 0 then 45 # dec (nat (- n)) else dec (nat n))"

definition parseInt_number :: "jsstring \<Rightarrow> jsnum" where
  "parseInt_number s =
     (let t = dropWhile is_space s;
          neg = (case t of c # _ \<Rightarrow> c = 45 | [] \<Rightarrow> False);
          t1 = (case t of c # r \<Rightarrow> if c = 45 \<or> c = 43 then r else t | [] \<Rightarrow> t);
          ds = takeWhile (\<lambda>c. digit_of 10 c \<noteq> None) t1
      in if ds = [] then NaN
         else Fin (of_int ((if neg then - 1 else 1) * int (digits_value 10 ds))))"

text \<open>
  The fall-back extraction after a failed or missing JSON object, and the function
  itself. Its \<open>try\<close> block covers the request and everything after it.
\<close>

definition extract_fallback :: "jsstring \<Rightarrow> answer_matches \<Rightarrow> compatibility_result" where
  "extract_fallback vacancyId m =
     (case am_scoreMatch m of
        Some digits \<Rightarrow>
          (let score = Math_max (Fin 0) (Math_min (Fin 100) (parseInt_number digits));
               color = scoreToColor score;
               explanation = (case am_explMatch m of
                                Some e \<Rightarrow> sanitize e
                              | None \<Rightarrow> expl_heuristic)
           in \<lparr>cr_vacancyId = vacancyId, cr_score = score, cr_color = color,
               cr_explanation = explanation\<rparr>)
      | None \<Rightarrow>
          \<lparr>cr_vacancyId = vacancyId, cr_score = Fin 50, cr_color = js ''yellow'',
           cr_explanation = expl_no_score\<rparr>)"

definition calculateCompatibility ::
  "jsstring option \<Rightarrow> compat_reply \<Rightarrow> jsstring \<Rightarrow> job \<Rightarrow> compatibility_result" where
  "calculateCompatibility apiKey reply resume vacancy =
     (let vacancyId = String_int (j_id vacancy)
      in if \<not> truthy apiKey \<or> resume = [] \<or> length (trim resume) < 50
         then \<lparr>cr_vacancyId = vacancyId, cr_score = Fin 50, cr_color = js ''yellow'',
               cr_explanation = expl_insufficient\<rparr>
         else case reply of
                CompatThrows \<Rightarrow>
                  \<lparr>cr_vacancyId = vacancyId, cr_score = Fin 50, cr_color = js ''yellow'',
                   cr_explanation = expl_exception\<rparr>
              | CompatNotOk status \<Rightarrow>
                  \<lparr>cr_vacancyId = vacancyId, cr_score = Fin 50, cr_color = js ''yellow'',
                   cr_explanation = expl_http_error\<rparr>
              | CompatContent m \<Rightarrow>
                  (case am_jsonMatch m of
                     Some (JsonObject parsed_score parsed_explanation) \<Rightarrow>
                       (let score = Math_max (Fin 0)
                                      (Math_min (Fin 100) (Math_round (to_number parsed_score)));
                            color = scoreToColor score
                        in case parsed_explanation of
                             ExplOther \<Rightarrow> extract_fallback vacancyId m
                           | ExplFalsy \<Rightarrow>
                               \<lparr>cr_vacancyId = vacancyId, cr_score = score, cr_color = color,
                                cr_explanation = sanitize expl_done\<rparr>
                           | ExplString e \<Rightarrow>
                               \<lparr>cr_vacancyId = vacancyId, cr_score = score, cr_color = color,
                                cr_explanation = sanitize (if e = [] then expl_done else e)\<rparr>)
                   | Some JsonSyntaxError \<Rightarrow> extract_fallback vacancyId m
                   | None \<Rightarrow> extract_fallback vacancyId m))"

text \<open>A score is whole and within 0 and 100.\<close>

definition score_in_range :: "jsnum \<Rightarrow> bool" where
  "score_in_range s =
     (case s of Fin x \<Rightarrow> of_int \<lfloor>x\<rfloor> = x \<and> 0 \<le> x \<and> x \<le> 100 | _ \<Rightarrow> False)"

section \<open>Sample data\<close>

text \<open>
  A small store and a small world on which the properties below are run: one user whose
  token is valid until time 5000, with one selected resume from the job board; a
  language model that answers with a marked-up sentence; a negotiations endpoint that
  answers 201 with a \<open>Location\<close> header.
\<close>

definition sample_user :: user where
  "sample_user = \<lparr>u_id = js ''u1'', u_hhAccessToken = Some (js ''tok''),
                   u_hhRefreshToken = Some (js ''ref''), u_hhTokenExpiresAt = Some 5000\<rparr>"

definition sample_resume :: resume where
  "sample_resume = \<lparr>r_id = 7, r_userId = Some (js ''u1''), r_hhResumeId = Some (js ''hh-1''),
                     r_title = Some (js ''Marketing lead''), r_content = js ''Five years in marketing'',
                     r_selected = True, r_updatedAt = 10\<rparr>"

definition sample_db :: db where
  "sample_db = \<lparr>users = [sample_user], resumes = [sample_resume], applications = [],
                 swipes = [], aiCompatibility = [], resumes_seq = 7, applications_seq = 0,
                 swipes_seq = 0\<rparr>"

definition sample_world :: world where
  "sample_world = \<lparr>w_now = 1000, w_later = 1001, w_apiKey = Some (js ''key''),
                    w_llm = LlmContent (Some (js '' I ran *growth* projects. '')),
                    w_token = TokenFetchFails,
                    w_negotiations = NegHttp 201 (Some (js ''/negotiations/777'')) BodyUnparsable\<rparr>"

definition sample_snapshot :: vacancy_data where
  "sample_snapshot = \<lparr>vd_title = Some (js ''Marketer''), vd_company = Some (js ''ACME''),
                       vd_salary = None, vd_description = Some (js ''Growth''),
                       vd_tags = Some [js ''SEO'']\<rparr>"

definition sample_request :: apply_request where
  "sample_request = \<lparr>q_userId = Some (js ''u1''), q_vacancyId = Some (js ''123''),
                      q_vacancyData = Some sample_snapshot, q_resumeText = Some (js ''My own text''),
                      q_isDemo = False\<rparr>"

definition sample_task :: background_task where
  "sample_task = \<lparr>t_appId = 1, t_userId = Some (js ''u1''), t_vacancyId = js ''123'',
                   t_vacancyData = Some sample_snapshot, t_resumeText = Some (js ''My own text''),
                   t_isDemo = False\<rparr>"

definition sample_pending :: application where
  "sample_pending = \<lparr>a_id = 1, a_userId = Some (js ''u1''), a_vacancyId = Some (js ''123''),
                      a_jobId = Some 123, a_jobTitle = js ''Marketer'', a_company = js ''ACME'',
                      a_resumeId = None, a_coverLetter = None, a_hhNegotiationId = None,
                      a_status = js ''pending'', a_errorReason = None, a_appliedAt = 1000\<rparr>"

definition sample_queued_db :: db where
  "sample_queued_db = sample_db\<lparr>applications := [sample_pending], applications_seq := 1\<rparr>"

definition sample_swipe :: swipe where
  "sample_swipe = \<lparr>s_id = 1, s_userId = js ''u1'', s_vacancyId = js ''123'',
                    s_direction = js ''right'', s_createdAt = 900\<rparr>"

definition sample_swiped_db :: db where
  "sample_swiped_db = sample_db\<lparr>swipes := [sample_swipe], swipes_seq := 1\<rparr>"

definition sample_resumes_db :: db where
  \<comment> \<open>\<open>u1\<close> has an unselected resume before the selected one; \<open>u2\<close> has a selected one\<close>
  "sample_resumes_db =
     sample_queued_db\<lparr>resumes :=
       [sample_resume\<lparr>r_id := 5, r_hhResumeId := None, r_content := js ''Manual notes'',
                       r_selected := False\<rparr>,
        sample_resume\<lparr>r_id := 6, r_userId := Some (js ''u2''), r_hhResumeId := Some (js ''hh-9''),
                       r_content := js ''Ten years in sales''\<rparr>,
        sample_resume]\<rparr>"

definition sample_two_users_db :: db where
  \<comment> \<open>\<open>u1\<close> has swiped vacancy 123, \<open>u2\<close> has swiped vacancy 124\<close>
  "sample_two_users_db =
     sample_db\<lparr>swipes := [sample_swipe,
                             sample_swipe\<lparr>s_id := 2, s_userId := js ''u2'', s_vacancyId := js ''124''\<rparr>],
                 swipes_seq := 2\<rparr>"

definition sample_vacancy :: hh_vacancy where
  "sample_vacancy = \<lparr>v_id = js ''123'', v_name = js ''Marketer'', v_employer_name = js ''ACME'',
                      v_logo_240 = None, v_logo_original = None,
                      v_salary = Some \<lparr>sal_from = Some 150000, sal_to = None, sal_currency = js ''RUR''\<rparr>,
                      v_requirement = Some (js ''<b>SEO</b> skills''), v_responsibility = None,
                      v_area_name = js ''Moscow'', v_schedule_id = Some (js ''remote''),
                      v_employment_id = Some (js ''full''), v_professional_roles = [js ''Marketing''],
                      v_alternate_url = js ''https://hh.ru/vacancy/123''\<rparr>"

definition sample_detail :: "jsstring \<Rightarrow> detail_http" where
  "sample_detail vid = DetailNotOk"

definition sample_board_resumes :: "hh_resume list" where
  "sample_board_resumes =
     [(js ''hh-2'', Some \<lparr>rd_title = js ''Analyst'', rd_text = js ''Two years in analytics''\<rparr>),
      (js ''hh-1'', Some \<lparr>rd_title = js ''Marketing lead'', rd_text = js ''Five years in marketing''\<rparr>)]"

definition sample_new_user_db :: db where
  "sample_new_user_db = sample_db\<lparr>resumes := [], resumes_seq := 0\<rparr>"

definition sample_long_resume :: jsstring where
  "sample_long_resume = js ''Marketing lead with five years of experience in growth and analytics''"

definition sample_job :: job where
  "sample_job = \<lparr>j_id = 123, j_title = js ''Marketer'', j_company = js ''ACME'', j_salary = [],
                  j_description = js ''Growth'', j_tags = [js ''SEO'']\<rparr>"

definition sample_answer :: answer_matches where
  \<comment> \<open>the answer text \<open>{"explanation": "Strong match"}\<close>\<close>
  "sample_answer = \<lparr>am_jsonMatch = Some (JsonObject ScoreMissing (ExplString (js ''Strong match''))),
                    am_scoreMatch = None, am_explMatch = Some (js ''Strong match'')\<rparr>"

section \<open>Properties\<close>

subsection \<open>Score buckets\<close>

lemma js_ge_trans_Fin: "js_ge s (Fin a) \<Longrightarrow> b \<le> a \<Longrightarrow> js_ge s (Fin b)"
  by (cases s) (auto simp: js_ge_def)

lemma js_lt_not_ge: "js_lt s (Fin a) \<Longrightarrow> \<not> js_ge s (Fin a)"
  by (cases s) (auto simp: js_ge_def js_lt_def)

text \<open>
  Claim C8. The score-to-bucket mapping of the compatibility results sends every score
  of at least 75 to "green", every score from 40 up to but excluding 75 to "yellow" and
  every score below 40 to "red"; in particular 82 is green, 55 is yellow and 10 is red.
\<close>

theorem scoreToColor_buckets:
  "(js_ge s (Fin 75) \<longrightarrow> scoreToColor s = js ''green'')
   \<and> (js_ge s (Fin 40) \<and> js_lt s (Fin 75) \<longrightarrow> scoreToColor s = js ''yellow'')
   \<and> (js_lt s (Fin 40) \<longrightarrow> scoreToColor s = js ''red'')
   \<and> scoreToColor (Fin 82) = js ''green''
   \<and> scoreToColor (Fin 55) = js ''yellow''
   \<and> scoreToColor (Fin 10) = js ''red''"
proof -
  have g: "js_ge s (Fin 75) \<longrightarrow> scoreToColor s = js ''green''"
    by (simp add: scoreToColor_def)
  have y: "js_ge s (Fin 40) \<and> js_lt s (Fin 75) \<longrightarrow> scoreToColor s = js ''yellow''"
    using js_lt_not_ge [of s 75] by (simp add: scoreToColor_def)
  have r: "js_lt s (Fin 40) \<longrightarrow> scoreToColor s = js ''red''"
    using js_lt_not_ge [of s 40] js_ge_trans_Fin [of s 75 40]
    by (auto simp: scoreToColor_def)
  have c: "scoreToColor (Fin 82) = js ''green''" "scoreToColor (Fin 55) = js ''yellow''"
    "scoreToColor (Fin 10) = js ''red''"
    by (simp_all add: scoreToColor_def js_ge_def)
  from g y r c show ?thesis by blast
qed

theorem scoreToColor_buckets_witness:
  "js_ge (Fin 90) (Fin 75) \<and> scoreToColor (Fin 90) = js ''green''
   \<and> js_ge (Fin 40) (Fin 40) \<and> js_lt (Fin 40) (Fin 75) \<and> scoreToColor (Fin 40) = js ''yellow''
   \<and> js_lt (Fin 39) (Fin 40) \<and> scoreToColor (Fin 39) = js ''red''
   \<and> js ''green'' \<noteq> js ''yellow'' \<and> js ''yellow'' \<noteq> js ''red''"
  using scoreToColor_buckets [of "Fin 90"] scoreToColor_buckets [of "Fin 40"]
    scoreToColor_buckets [of "Fin 39"]
  by (simp add: js_ge_def js_lt_def js_def)

subsection \<open>Facts about the helpers\<close>

lemma truthy_or_else: "truthy x \<Longrightarrow> x = Some (or_else x d)"
  by (auto simp: truthy_def or_else_def split: option.splits)

lemma or_else_nonempty: "d \<noteq> [] \<Longrightarrow> or_else x d \<noteq> []"
  by (simp add: or_else_def split: option.splits)

lemma http_prefix_nonempty: "js ''HTTP '' @ s \<noteq> []"
  by (simp add: js_def)

lemma applications_getValidAccessToken:
  "applications (fst (getValidAccessToken now later h d u)) = applications d"
  by (simp add: getValidAccessToken_def Let_def split: option.splits sum.splits)

lemma getValidAccessToken_events:
  "filter is_update (snd (snd (getValidAccessToken now later h d u))) = []
   \<and> filter is_apply (snd (snd (getValidAccessToken now later h d u))) = []"
  by (simp add: getValidAccessToken_def Let_def split: option.splits sum.splits)

lemma generator_resumes_append:
  "generator_resumes (xs @ ys) = generator_resumes xs @ generator_resumes ys"
  by (induction xs rule: generator_resumes.induct) simp_all

lemma getValidAccessToken_no_generate:
  "generator_resumes (snd (snd (getValidAccessToken now later h d u))) = []"
  by (simp add: getValidAccessToken_def Let_def split: option.splits sum.splits)

text \<open>
  The token manager answers \<open>null\<close> when the user has no token pair, and when the stored
  token is stale and the refresh throws.
\<close>

lemma getValidAccessToken_unavailable:
  assumes "find (\<lambda>u. u_id u = userId) (users d) = Some usr"
    and "\<not> truthy (u_hhAccessToken usr) \<or> \<not> truthy (u_hhRefreshToken usr)
         \<or> ((case u_hhTokenExpiresAt usr of None \<Rightarrow> True | Some e \<Rightarrow> e \<le> now)
             \<and> refreshHHToken h = Inl err)"
  shows "getValidAccessToken now later h d userId
           = (d, None, if truthy (u_hhAccessToken usr) \<and> truthy (u_hhRefreshToken usr)
                       then [EvRefresh (or_else (u_hhRefreshToken usr) [])] else [])"
  using assms
  by (auto simp: getValidAccessToken_def Let_def split: option.splits)

text \<open>
  What the negotiation client does with an answer. It throws on a rejected fetch and on
  an answer that is not \<open>ok\<close> with the body \<open>null\<close>, and on nothing else. When it
  returns, it reports an error exactly for an answer that is not \<open>ok\<close>, with the
  body's \<open>description\<close>, else its \<open>error\<close>, else the status as message; otherwise the
  last segment of the \<open>Location\<close> header of a 201 is the id.
\<close>

lemma applyToVacancy_throws:
  "(\<exists>e. applyToVacancy h = Inl e)
     \<longleftrightarrow> h = NegFetchFails
         \<or> (\<exists>status location. h = NegHttp status location BodyNull \<and> \<not> http_ok status)"
  by (cases h)
     (auto simp: applyToVacancy_def http_ok_def split: json_body.splits)

lemma applyToVacancy_reports:
  assumes "applyToVacancy (NegHttp status location body) = Inr result"
  shows "(truthy (n_error result) \<longleftrightarrow> \<not> http_ok status)
     \<and> (\<not> http_ok status \<longrightarrow>
          n_error result
            = Some (case body of
                      BodyValue errorData \<Rightarrow>
                        or_else (ed_description errorData)
                          (or_else (ed_error errorData) (js ''HTTP '' @ dec status))
                    | _ \<Rightarrow> js ''HTTP '' @ dec status))
     \<and> (http_ok status \<longrightarrow>
          or_null (n_id result)
            = (if status = 201 \<and> truthy location then or_null (map_option last_segment location)
               else None))"
proof (cases "status = 201 \<and> truthy location")
  case True
  then have "result = \<lparr>n_id = map_option last_segment location, n_error = None\<rparr>"
    using assms by (simp add: applyToVacancy_def)
  with True show ?thesis by (simp add: http_ok_def truthy_def)
next
  case False
  note nf = False
  show ?thesis
  proof (cases "http_ok status")
    case True
    then have "result = \<lparr>n_id = None, n_error = None\<rparr>"
      using assms nf by (auto simp: applyToVacancy_def)
    with True nf show ?thesis by (auto simp: truthy_def or_null_def)
  next
    case False
    have ne: "or_else x (or_else y (js ''HTTP '' @ dec status)) \<noteq> []" for x y
      by (intro or_else_nonempty http_prefix_nonempty)
    from False nf assms
    have "n_error result
            = Some (case body of
                      BodyValue errorData \<Rightarrow>
                        or_else (ed_description errorData)
                          (or_else (ed_error errorData) (js ''HTTP '' @ dec status))
                    | _ \<Rightarrow> js ''HTTP '' @ dec status)"
      by (cases body) (auto simp: applyToVacancy_def Let_def)
    with False ne http_prefix_nonempty [of "dec status"] show ?thesis
      by (cases body) (simp_all add: truthy_def)
  qed
qed

lemmas sample_defs = sample_user_def sample_resume_def sample_db_def sample_world_def
  sample_snapshot_def sample_request_def sample_task_def sample_pending_def sample_queued_db_def

subsection \<open>Synchronous phase\<close>

lemma find_None_users:
  "(find (\<lambda>usr. u_id usr = u) us = None) = (\<not> (\<exists>usr \<in> set us. u_id usr = u))"
  by (auto simp: find_None_iff)

lemma insert_application_cases:
  "insert_application d row =
     (if \<exists>n. a_jobId row = Some n \<and> \<not> int4 n then Inl (OutOfRange, d)
      else if \<exists>u. a_userId row = Some u \<and> \<not> (\<exists>usr \<in> set (users d). u_id usr = u)
      then Inl (ForeignKeyViolation, d\<lparr>applications_seq := Suc (applications_seq d)\<rparr>)
      else Inr (d\<lparr>applications := applications d @ [row],
                  applications_seq := Suc (applications_seq d)\<rparr>))"
  by (auto simp: insert_application_def find_None_users split: option.splits)

text \<open>
  Claim C1, as amended. For every call of the asynchronous apply operation: when
  \<open>vacancyId\<close> is absent (it fails the handler's presence test) the request is rejected
  with HTTP 400 and the store is unchanged. Otherwise, when the store accepts the new
  row (the user id, if given, has a row in the users table, and the number read from
  \<open>vacancyId\<close>, if any, fits the 32-bit column \<open>job_id\<close>), exactly one row is appended
  to the applications table before the response, with status "pending", no cover
  letter, and job title and company taken from the vacancy snapshot or, when absent
  there, the placeholder strings; the response carries that row's id and the status
  "queued", and the id is new when the key counter is at least every id in the table.
  When the store does not accept the row, the request is answered with HTTP 500 and
  the applications table is unchanged.
\<close>

theorem apply_async_sync_phase:
  "(\<not> truthy (q_vacancyId req) \<longrightarrow>
      apply_async now d req = (d, Response 400 (ErrorBody (js ''Vacancy ID required'')), None))
   \<and> (truthy (q_vacancyId req)
        \<and> (truthy (q_userId req) \<longrightarrow> (\<exists>usr \<in> set (users d). Some (u_id usr) = q_userId req))
        \<and> (\<forall>n. parseInt (or_else (q_vacancyId req) []) = Some n
               \<longrightarrow> - 2147483648 \<le> n \<and> n \<le> 2147483647)
      \<longrightarrow>
      (\<exists>row t.
         applications (fst (apply_async now d req)) = applications d @ [row]
         \<and> a_status row = js ''pending''
         \<and> a_coverLetter row = None
         \<and> a_jobTitle row = or_else (Option.bind (q_vacancyData req) vd_title) placeholder_title
         \<and> a_company row = or_else (Option.bind (q_vacancyData req) vd_company) placeholder_company
         \<and> snd (apply_async now d req)
             = (Response 200 (QueuedBody (js ''queued'') (a_id row) msg_queued), Some t)
         \<and> t_appId t = a_id row
         \<and> ((\<forall>a \<in> set (applications d). a_id a \<le> applications_seq d)
              \<longrightarrow> (\<forall>a \<in> set (applications d). a_id a \<noteq> a_id row))))
   \<and> (truthy (q_vacancyId req)
        \<and> ((truthy (q_userId req) \<and> \<not> (\<exists>usr \<in> set (users d). Some (u_id usr) = q_userId req))
            \<or> (\<exists>n. parseInt (or_else (q_vacancyId req) []) = Some n
                    \<and> (n < - 2147483648 \<or> 2147483647 < n)))
      \<longrightarrow>
      applications (fst (apply_async now d req)) = applications d
      \<and> snd (apply_async now d req)
          = (Response 500 (ErrorBody (js ''Failed to queue application'')), None))"
proof (intro conjI impI)
  assume "\<not> truthy (q_vacancyId req)"
  then show "apply_async now d req = (d, Response 400 (ErrorBody (js ''Vacancy ID required'')), None)"
    by (simp add: apply_async_def)
next
  assume a: "truthy (q_vacancyId req)
        \<and> (truthy (q_userId req) \<longrightarrow> (\<exists>usr \<in> set (users d). Some (u_id usr) = q_userId req))
        \<and> (\<forall>n. parseInt (or_else (q_vacancyId req) []) = Some n
               \<longrightarrow> - 2147483648 \<le> n \<and> n \<le> 2147483647)"
  show "\<exists>row t.
         applications (fst (apply_async now d req)) = applications d @ [row]
         \<and> a_status row = js ''pending''
         \<and> a_coverLetter row = None
         \<and> a_jobTitle row = or_else (Option.bind (q_vacancyData req) vd_title) placeholder_title
         \<and> a_company row = or_else (Option.bind (q_vacancyData req) vd_company) placeholder_company
         \<and> snd (apply_async now d req)
             = (Response 200 (QueuedBody (js ''queued'') (a_id row) msg_queued), Some t)
         \<and> t_appId t = a_id row
         \<and> ((\<forall>a \<in> set (applications d). a_id a \<le> applications_seq d)
              \<longrightarrow> (\<forall>a \<in> set (applications d). a_id a \<noteq> a_id row))"
    using a
    by (cases "q_userId req")
       (auto simp: apply_async_def Let_def deleteCompatibility_def insert_application_cases
          or_null_def truthy_def parseInt_or_null_def int4_def split: option.splits if_splits)
next
  assume b: "truthy (q_vacancyId req)
        \<and> ((truthy (q_userId req) \<and> \<not> (\<exists>usr \<in> set (users d). Some (u_id usr) = q_userId req))
            \<or> (\<exists>n. parseInt (or_else (q_vacancyId req) []) = Some n
                    \<and> (n < - 2147483648 \<or> 2147483647 < n)))"
  then show "applications (fst (apply_async now d req)) = applications d"
    by (cases "q_userId req")
       (auto simp: apply_async_def Let_def insert_application_cases
          or_null_def truthy_def parseInt_or_null_def int4_def split: option.splits if_splits)
  from b show "snd (apply_async now d req)
          = (Response 500 (ErrorBody (js ''Failed to queue application'')), None)"
    by (cases "q_userId req")
       (auto simp: apply_async_def Let_def insert_application_cases
          or_null_def truthy_def parseInt_or_null_def int4_def split: option.splits if_splits)
qed

theorem apply_async_sync_phase_witness:
  "\<not> truthy (q_vacancyId (sample_request\<lparr>q_vacancyId := None\<rparr>))
   \<and> apply_async 1000 sample_queued_db (sample_request\<lparr>q_vacancyId := None\<rparr>)
       = (sample_queued_db, Response 400 (ErrorBody (js ''Vacancy ID required'')), None)
   \<and> truthy (q_vacancyId sample_request)
   \<and> q_userId sample_request = Some (js ''u1'')
   \<and> map u_id (users sample_queued_db) = [js ''u1'']
   \<and> parseInt (js ''123'') = Some 123
   \<and> map a_id (applications sample_queued_db) = [1]
   \<and> applications_seq sample_queued_db = 1
   \<and> (\<exists>row t.
         applications (fst (apply_async 1000 sample_queued_db sample_request))
           = applications sample_queued_db @ [row]
         \<and> a_status row = js ''pending''
         \<and> a_coverLetter row = None
         \<and> a_jobTitle row = js ''Marketer''
         \<and> a_company row = js ''ACME''
         \<and> snd (apply_async 1000 sample_queued_db sample_request)
             = (Response 200 (QueuedBody (js ''queued'') (a_id row) msg_queued), Some t)
         \<and> t_appId t = a_id row
         \<and> a_id row \<noteq> 1)
   \<and> parseInt (js ''3000000000'') = Some 3000000000
   \<and> applications (fst (apply_async 1000 sample_queued_db
                            (sample_request\<lparr>q_vacancyId := Some (js ''3000000000'')\<rparr>)))
       = applications sample_queued_db
   \<and> snd (apply_async 1000 sample_queued_db
             (sample_request\<lparr>q_vacancyId := Some (js ''3000000000'')\<rparr>))
       = (Response 500 (ErrorBody (js ''Failed to queue application'')), None)"
proof -
  let ?big = "sample_request\<lparr>q_vacancyId := Some (js ''3000000000'')\<rparr>"
  have n: "\<not> truthy (q_vacancyId (sample_request\<lparr>q_vacancyId := None\<rparr>))"
    by (simp add: truthy_def)
  have y: "truthy (q_vacancyId sample_request)" "truthy (q_vacancyId ?big)"
    by (simp_all add: sample_request_def truthy_def js_def)
  have us: "q_userId sample_request = Some (js ''u1'')" "map u_id (users sample_queued_db) = [js ''u1'']"
    by (simp_all add: sample_defs)
  have ex: "\<exists>usr \<in> set (users sample_queued_db). Some (u_id usr) = q_userId sample_request"
    by (simp add: sample_defs)
  have v: "or_else (q_vacancyId sample_request) [] = js ''123''"
    "or_else (q_vacancyId ?big) [] = js ''3000000000''"
    by (simp_all add: sample_request_def or_else_def js_def)
  have p1: "parseInt (js ''123'') = Some 123"
    by (simp add: parseInt_def js_def is_space_def digit_of_def digits_value_def)
  have p2: "parseInt (js ''3000000000'') = Some 3000000000"
    by (simp add: parseInt_def js_def is_space_def digit_of_def digits_value_def)
  have i: "map a_id (applications sample_queued_db) = [1]" "applications_seq sample_queued_db = 1"
    by (simp_all add: sample_queued_db_def sample_pending_def)
  have b: "\<forall>a \<in> set (applications sample_queued_db). a_id a \<le> applications_seq sample_queued_db"
    by (simp add: sample_queued_db_def sample_pending_def)
  have p: "sample_pending \<in> set (applications sample_queued_db)" "a_id sample_pending = 1"
    by (simp_all add: sample_queued_db_def sample_pending_def)
  have tc: "or_else (Option.bind (q_vacancyData sample_request) vd_title) placeholder_title
              = js ''Marketer''"
    "or_else (Option.bind (q_vacancyData sample_request) vd_company) placeholder_company
              = js ''ACME''"
    by (simp_all add: sample_request_def sample_snapshot_def or_else_def js_def)
  have acc: "truthy (q_vacancyId sample_request)
        \<and> (truthy (q_userId sample_request)
             \<longrightarrow> (\<exists>usr \<in> set (users sample_queued_db). Some (u_id usr) = q_userId sample_request))
        \<and> (\<forall>n. parseInt (or_else (q_vacancyId sample_request) []) = Some n
               \<longrightarrow> - 2147483648 \<le> n \<and> n \<le> 2147483647)"
    using y(1) ex by (simp add: v p1)
  from apply_async_sync_phase [where req = sample_request and now = 1000 and d = sample_queued_db] acc
  obtain row t where r:
    "applications (fst (apply_async 1000 sample_queued_db sample_request))
       = applications sample_queued_db @ [row]"
    "a_status row = js ''pending''" "a_coverLetter row = None"
    "a_jobTitle row = or_else (Option.bind (q_vacancyData sample_request) vd_title) placeholder_title"
    "a_company row = or_else (Option.bind (q_vacancyData sample_request) vd_company) placeholder_company"
    "snd (apply_async 1000 sample_queued_db sample_request)
       = (Response 200 (QueuedBody (js ''queued'') (a_id row) msg_queued), Some t)"
    "t_appId t = a_id row"
    "(\<forall>a \<in> set (applications sample_queued_db). a_id a \<le> applications_seq sample_queued_db)
       \<longrightarrow> (\<forall>a \<in> set (applications sample_queued_db). a_id a \<noteq> a_id row)"
    by blast
  from r(8) b p have f: "a_id row \<noteq> 1" by metis
  from apply_async_sync_phase [where req = "sample_request\<lparr>q_vacancyId := None\<rparr>"
      and now = 1000 and d = sample_queued_db] n
  have rej: "apply_async 1000 sample_queued_db (sample_request\<lparr>q_vacancyId := None\<rparr>)
       = (sample_queued_db, Response 400 (ErrorBody (js ''Vacancy ID required'')), None)"
    by blast
  have refused: "truthy (q_vacancyId ?big)
        \<and> ((truthy (q_userId ?big)
              \<and> \<not> (\<exists>usr \<in> set (users sample_queued_db). Some (u_id usr) = q_userId ?big))
            \<or> (\<exists>n. parseInt (or_else (q_vacancyId ?big) []) = Some n
                    \<and> (n < - 2147483648 \<or> 2147483647 < n)))"
  proof -
    have "or_else (Some (js ''3000000000'')) [] = js ''3000000000''"
      by (simp add: or_else_def js_def)
    then show ?thesis using y(2) by (simp add: p2)
  qed
  from apply_async_sync_phase [where req = ?big and now = 1000 and d = sample_queued_db] refused
  have big: "applications (fst (apply_async 1000 sample_queued_db ?big))
               = applications sample_queued_db"
    "snd (apply_async 1000 sample_queued_db ?big)
       = (Response 500 (ErrorBody (js ''Failed to queue application'')), None)"
    by blast+
  show ?thesis
    using n y(1) us p1 p2 i rej r(1,2,3,6,7) r(4,5) [unfolded tc] f big by blast
qed

text \<open>
  The claim as stated fails for a request whose user id has no row in the users table:
  the insert throws, the answer is HTTP 500 and no row is kept.
\<close>

theorem ghost_user_counterexample:
  "truthy (q_vacancyId (sample_request\<lparr>q_userId := Some (js ''ghost'')\<rparr>))
   \<and> apply_async 1000 sample_db (sample_request\<lparr>q_userId := Some (js ''ghost'')\<rparr>)
       = (sample_db\<lparr>applications_seq := 1\<rparr>,
          Response 500 (ErrorBody (js ''Failed to queue application'')), None)
   \<and> applications (sample_db\<lparr>applications_seq := 1\<rparr>) = []"
  by (simp add: apply_async_def insert_application_def int4_def sample_defs Let_def truthy_def
      or_else_def or_null_def js_def parseInt_or_null_def parseInt_def is_space_def digit_of_def
      digits_value_def)

text \<open>
  The task that an accepted request schedules carries the request's fields and the id
  of the row just inserted.
\<close>

lemma apply_async_task:
  assumes "truthy (q_vacancyId req)"
    and "snd (snd (apply_async now d req)) \<noteq> None"
  shows "\<exists>t. snd (snd (apply_async now d req)) = Some t
           \<and> t_userId t = q_userId req \<and> t_isDemo t = q_isDemo req
           \<and> t_resumeText t = q_resumeText req \<and> t_vacancyData t = q_vacancyData req
           \<and> q_vacancyId req = Some (t_vacancyId t)
           \<and> (\<exists>row \<in> set (applications (fst (apply_async now d req))). a_id row = t_appId t)"
  using assms truthy_or_else [of "q_vacancyId req" "[]"]
  by (cases "q_userId req")
     (auto simp: apply_async_def Let_def deleteCompatibility_def insert_application_cases
        split: if_splits)

subsection \<open>Background phase\<close>

lemma find_first:
  "P r \<Longrightarrow> \<forall>p \<in> set pre. \<not> P p \<Longrightarrow> find P (pre @ r # post) = Some r"
  by (induction pre) auto

lemma background_generator_call:
  "generator_resumes (snd (background w d t)) = [resumeTextFinal d t]"
  using getValidAccessToken_no_generate [of "w_now w" "w_later w" "w_token w" d "or_else (t_userId t) []"]
  by (auto simp: background_def Let_def generator_resumes_append
      split: prod.splits option.splits sum.splits json_body.splits)

text \<open>
  Claim C2, as amended. The background task calls the generator once, and the resume
  text it passes is read from the resumes table: the content of the first row of the
  request's user that is marked selected, and the empty string when no user is given or
  no row of that user is marked selected. The caller-supplied \<open>resumeText\<close> has no
  effect on the task, in the demo path as in the authenticated path.
\<close>

theorem background_resume_text:
  "(t_userId t = None \<longrightarrow> generator_resumes (snd (background w d t)) = [[]])
   \<and> (\<forall>u. t_userId t = Some u
            \<and> (\<forall>r \<in> set (resumes d). r_userId r = Some u \<longrightarrow> \<not> r_selected r)
          \<longrightarrow> generator_resumes (snd (background w d t)) = [[]])
   \<and> (\<forall>u pre r post.
          t_userId t = Some u \<and> resumes d = pre @ r # post
            \<and> r_userId r = Some u \<and> r_selected r
            \<and> (\<forall>p \<in> set pre. r_userId p = Some u \<longrightarrow> \<not> r_selected p)
          \<longrightarrow> generator_resumes (snd (background w d t)) = [r_content r])
   \<and> background w d (t\<lparr>t_resumeText := x\<rparr>) = background w d t"
proof (intro conjI allI impI)
  assume "t_userId t = None"
  then show "generator_resumes (snd (background w d t)) = [[]]"
    by (simp add: background_generator_call resumeTextFinal_def selected_resume_def)
next
  fix u
  assume a: "t_userId t = Some u
            \<and> (\<forall>r \<in> set (resumes d). r_userId r = Some u \<longrightarrow> \<not> r_selected r)"
  then have "find (\<lambda>r. r_userId r = Some u \<and> r_selected r) (resumes d) = None"
    by (auto simp: find_None_iff)
  with a show "generator_resumes (snd (background w d t)) = [[]]"
    by (simp add: background_generator_call resumeTextFinal_def selected_resume_def)
next
  fix u pre r post
  assume a: "t_userId t = Some u \<and> resumes d = pre @ r # post
            \<and> r_userId r = Some u \<and> r_selected r
            \<and> (\<forall>p \<in> set pre. r_userId p = Some u \<longrightarrow> \<not> r_selected p)"
  then have "find (\<lambda>r. r_userId r = Some u \<and> r_selected r) (pre @ r # post) = Some r"
    by (intro find_first) auto
  with a show "generator_resumes (snd (background w d t)) = [r_content r]"
    by (simp add: background_generator_call resumeTextFinal_def selected_resume_def)
next
  show "background w d (t\<lparr>t_resumeText := x\<rparr>) = background w d t"
    by (simp add: background_def task_coverLetter_def resumeTextFinal_def task_vacancy_def Let_def
        cong: if_cong prod.case_cong option.case_cong sum.case_cong)
qed

theorem background_resume_text_witness:
  "t_userId sample_task = Some (js ''u1'')
   \<and> map r_content (resumes sample_resumes_db)
       = [js ''Manual notes'', js ''Ten years in sales'', js ''Five years in marketing'']
   \<and> map r_userId (resumes sample_resumes_db)
       = [Some (js ''u1''), Some (js ''u2''), Some (js ''u1'')]
   \<and> map r_selected (resumes sample_resumes_db) = [False, True, True]
   \<and> generator_resumes (snd (background sample_world sample_resumes_db sample_task))
       = [js ''Five years in marketing'']
   \<and> generator_resumes
        (snd (background sample_world sample_resumes_db (sample_task\<lparr>t_userId := Some (js ''u3'')\<rparr>)))
       = [[]]
   \<and> generator_resumes
        (snd (background sample_world sample_resumes_db (sample_task\<lparr>t_userId := None\<rparr>)))
       = [[]]
   \<and> background sample_world sample_resumes_db (sample_task\<lparr>t_resumeText := None\<rparr>)
       = background sample_world sample_resumes_db sample_task"
proof -
  let ?m = "sample_resume\<lparr>r_id := 5, r_hhResumeId := None, r_content := js ''Manual notes'',
                       r_selected := False\<rparr>"
  let ?o = "sample_resume\<lparr>r_id := 6, r_userId := Some (js ''u2''), r_hhResumeId := Some (js ''hh-9''),
                       r_content := js ''Ten years in sales''\<rparr>"
  have n: "js ''u2'' \<noteq> js ''u1''" "js ''u1'' \<noteq> js ''u3''" "js ''u2'' \<noteq> js ''u3''"
    by (simp_all add: js_def)
  have rs: "resumes sample_resumes_db = [?m, ?o] @ sample_resume # []"
    by (simp add: sample_resumes_db_def sample_queued_db_def sample_db_def)
  have u: "t_userId sample_task = Some (js ''u1'')" by (simp add: sample_task_def)
  have s: "r_userId sample_resume = Some (js ''u1'')" "r_selected sample_resume"
    "r_content sample_resume = js ''Five years in marketing''"
    by (simp_all add: sample_resume_def)
  have p: "\<forall>p \<in> set [?m, ?o]. r_userId p = Some (js ''u1'') \<longrightarrow> \<not> r_selected p"
    using n by (simp add: sample_resume_def)
  have c1: "generator_resumes (snd (background sample_world sample_resumes_db sample_task))
       = [js ''Five years in marketing'']"
    using background_resume_text [where w = sample_world and d = sample_resumes_db
        and t = sample_task and x = None] u rs s p
    by metis
  have q: "\<forall>r \<in> set (resumes sample_resumes_db). r_userId r = Some (js ''u3'') \<longrightarrow> \<not> r_selected r"
    using n by (simp add: rs sample_resume_def)
  have c2: "generator_resumes
        (snd (background sample_world sample_resumes_db (sample_task\<lparr>t_userId := Some (js ''u3'')\<rparr>)))
       = [[]]"
    using background_resume_text [where w = sample_world and d = sample_resumes_db
        and t = "sample_task\<lparr>t_userId := Some (js ''u3'')\<rparr>" and x = None] q
    by simp
  have c3: "generator_resumes
        (snd (background sample_world sample_resumes_db (sample_task\<lparr>t_userId := None\<rparr>)))
       = [[]]"
    using background_resume_text [where w = sample_world and d = sample_resumes_db
        and t = "sample_task\<lparr>t_userId := None\<rparr>" and x = None]
    by simp
  have c4: "background sample_world sample_resumes_db (sample_task\<lparr>t_resumeText := None\<rparr>)
       = background sample_world sample_resumes_db sample_task"
    using background_resume_text [where w = sample_world and d = sample_resumes_db
        and t = sample_task and x = None]
    by blast
  have m: "map r_content (resumes sample_resumes_db)
       = [js ''Manual notes'', js ''Ten years in sales'', js ''Five years in marketing'']"
    "map r_userId (resumes sample_resumes_db)
       = [Some (js ''u1''), Some (js ''u2''), Some (js ''u1'')]"
    "map r_selected (resumes sample_resumes_db) = [False, True, True]"
    by (simp_all add: rs sample_resume_def)
  show ?thesis using u m c1 c2 c3 c4 by blast
qed

text \<open>
  The claim as stated fails in the demo path: a demo request without a user that
  carries a resume text has the generator called with the empty string.
\<close>

theorem demo_resume_text_counterexample:
  "t_isDemo (sample_task\<lparr>t_userId := None, t_isDemo := True\<rparr>)
   \<and> t_resumeText (sample_task\<lparr>t_userId := None, t_isDemo := True\<rparr>) = Some (js ''My own text'')
   \<and> generator_resumes
        (snd (background sample_world sample_queued_db
               (sample_task\<lparr>t_userId := None, t_isDemo := True\<rparr>))) = [[]]
   \<and> js ''My own text'' \<noteq> []"
  by (simp add: background_def Let_def resumeTextFinal_def selected_resume_def sample_defs js_def)

text \<open>
  Claim C3. When \<open>isDemo\<close> is true or no user is present, the background task ends by
  one update that stores the generated cover letter, a string, and the status "demo" in
  the application's row, and it never calls the submission endpoint.
\<close>

theorem background_demo:
  assumes "t_isDemo t \<or> \<not> truthy (t_userId t)"
  shows "snd (background w d t)
           = [EvGenerate (resumeTextFinal d t) (task_vacancy t),
              EvUpdate (t_appId t) (no_set\<lparr>set_coverLetter := Some (task_coverLetter w d t),
                                            set_status := Some (js ''demo'')\<rparr>)]
         \<and> (\<forall>e \<in> set (snd (background w d t)). \<not> is_apply e)
         \<and> applications (fst (background w d t))
             = map (\<lambda>a. if a_id a = t_appId t
                         then a\<lparr>a_coverLetter := Some (task_coverLetter w d t),
                                a_status := js ''demo''\<rparr>
                         else a) (applications d)"
  using assms
  by (auto simp: background_def Let_def no_set_def update_application_def apply_set_def)

theorem background_demo_witness:
  "(t_isDemo (sample_task\<lparr>t_userId := None\<rparr>) \<or> \<not> truthy (t_userId (sample_task\<lparr>t_userId := None\<rparr>)))
   \<and> snd (background sample_world sample_queued_db (sample_task\<lparr>t_userId := None\<rparr>))
       = [EvGenerate [] (task_vacancy sample_task),
          EvUpdate 1 (no_set\<lparr>set_coverLetter := Some (js ''I ran growth projects.''),
                            set_status := Some (js ''demo'')\<rparr>)]
   \<and> applications (fst (background sample_world sample_queued_db (sample_task\<lparr>t_userId := None\<rparr>)))
       = [sample_pending\<lparr>a_coverLetter := Some (js ''I ran growth projects.''),
                         a_status := js ''demo''\<rparr>]"
proof -
  have l: "task_coverLetter sample_world sample_queued_db (sample_task\<lparr>t_userId := None\<rparr>)
             = js ''I ran growth projects.''"
    by (simp add: task_coverLetter_def generateCoverLetter_def sample_defs truthy_def
        sanitize_def trim_def js_def is_space_def is_markup_def)
  have r: "resumeTextFinal sample_queued_db (sample_task\<lparr>t_userId := None\<rparr>) = []"
    by (simp add: resumeTextFinal_def selected_resume_def sample_defs)
  have v: "task_vacancy (sample_task\<lparr>t_userId := None\<rparr>) = task_vacancy sample_task"
    by (simp add: task_vacancy_def)
  have h: "t_isDemo (sample_task\<lparr>t_userId := None\<rparr>)
           \<or> \<not> truthy (t_userId (sample_task\<lparr>t_userId := None\<rparr>))"
    by (simp add: truthy_def)
  show ?thesis
    using background_demo [OF h, where w = sample_world and d = sample_queued_db] h
    unfolding l r v
    by (simp add: sample_task_def sample_queued_db_def sample_db_def sample_pending_def)
qed

text \<open>
  Claim C4. For an authenticated, non-demo application for which the token manager
  returns no access token, the background task ends by one update that stores the cover
  letter (generated before the check), the status "failed" and the reason "not
  authorised at hh.ru" in the application's row, and it never calls the submission
  endpoint.
\<close>

theorem background_not_authenticated:
  assumes "\<not> t_isDemo t" and "truthy (t_userId t)"
    and "getValidAccessToken (w_now w) (w_later w) (w_token w) d (or_else (t_userId t) [])
           = (d1, accessToken, evT)"
    and "\<not> truthy accessToken"
  shows "filter is_update (snd (background w d t))
           = [EvUpdate (t_appId t) (no_set\<lparr>set_coverLetter := Some (task_coverLetter w d t),
                                            set_status := Some (js ''failed''),
                                            set_errorReason := Some err_not_authorized\<rparr>)]
         \<and> filter is_apply (snd (background w d t)) = []
         \<and> applications (fst (background w d t))
             = map (\<lambda>a. if a_id a = t_appId t
                         then a\<lparr>a_coverLetter := Some (task_coverLetter w d t),
                                a_status := js ''failed'',
                                a_errorReason := Some err_not_authorized\<rparr>
                         else a) (applications d)"
proof -
  have ev: "filter is_update evT = []" "filter is_apply evT = []"
    using getValidAccessToken_events [of "w_now w" "w_later w" "w_token w" d "or_else (t_userId t) []"]
      assms(3) by simp_all
  have ap: "applications d1 = applications d"
    using applications_getValidAccessToken [of "w_now w" "w_later w" "w_token w" d "or_else (t_userId t) []"]
      assms(3) by simp
  have bg: "background w d t
      = (update_application d1 (t_appId t)
           (no_set\<lparr>set_coverLetter := Some (task_coverLetter w d t),
                    set_status := Some (js ''failed''),
                    set_errorReason := Some err_not_authorized\<rparr>),
         [EvGenerate (resumeTextFinal d t) (task_vacancy t)] @ evT
           @ [EvUpdate (t_appId t)
               (no_set\<lparr>set_coverLetter := Some (task_coverLetter w d t),
                    set_status := Some (js ''failed''),
                    set_errorReason := Some err_not_authorized\<rparr>)])"
    using assms by (simp add: background_def Let_def)
  show ?thesis
    unfolding bg using ev ap
    by (simp add: update_application_def apply_set_def no_set_def)
qed

theorem background_not_authenticated_witness:
  "\<not> t_isDemo sample_task \<and> truthy (t_userId sample_task)
   \<and> getValidAccessToken 9000 9001 TokenFetchFails sample_queued_db (js ''u1'')
       = (sample_queued_db, None, [EvRefresh (js ''ref'')])
   \<and> filter is_update (snd (background (sample_world\<lparr>w_now := 9000, w_later := 9001\<rparr>)
                                sample_queued_db sample_task))
       = [EvUpdate 1 (no_set\<lparr>set_coverLetter := Some (js ''I ran growth projects.''),
                            set_status := Some (js ''failed''),
                            set_errorReason := Some err_not_authorized\<rparr>)]
   \<and> filter is_apply (snd (background (sample_world\<lparr>w_now := 9000, w_later := 9001\<rparr>)
                               sample_queued_db sample_task)) = []
   \<and> applications (fst (background (sample_world\<lparr>w_now := 9000, w_later := 9001\<rparr>)
                              sample_queued_db sample_task))
       = [sample_pending\<lparr>a_coverLetter := Some (js ''I ran growth projects.''),
                         a_status := js ''failed'',
                         a_errorReason := Some err_not_authorized\<rparr>]"
proof -
  let ?w = "sample_world\<lparr>w_now := 9000, w_later := 9001\<rparr>"
  have l: "task_coverLetter ?w sample_queued_db sample_task = js ''I ran growth projects.''"
    by (simp add: task_coverLetter_def generateCoverLetter_def sample_defs truthy_def
        sanitize_def trim_def js_def is_space_def is_markup_def)
  have a: "\<not> t_isDemo sample_task" "truthy (t_userId sample_task)"
    by (simp_all add: sample_task_def truthy_def js_def)
  have g: "getValidAccessToken (w_now ?w) (w_later ?w) (w_token ?w) sample_queued_db
             (or_else (t_userId sample_task) [])
           = (sample_queued_db, None, [EvRefresh (js ''ref'')])"
    by (simp add: getValidAccessToken_def refreshHHToken_def sample_defs truthy_def or_else_def
        js_def Let_def)
  have n: "\<not> truthy None" by (simp add: truthy_def)
  have g': "getValidAccessToken 9000 9001 TokenFetchFails sample_queued_db (js ''u1'')
           = (sample_queued_db, None, [EvRefresh (js ''ref'')])"
    using g by (simp add: sample_task_def sample_world_def or_else_def js_def)
  show ?thesis
    using background_not_authenticated [OF a g n] a g'
    unfolding l
    by (simp add: sample_queued_db_def sample_db_def sample_task_def sample_pending_def)
qed

text \<open>
  When the negotiation client returns a result, the task does what the submission step
  is meant to do: with an error reported, the application's row gets the cover letter,
  the resume reference, the status "failed" and the reported message as error reason;
  with none, it gets the cover letter, the resume reference, the status "success" and
  the negotiation id of the response. The task makes exactly one update, after exactly
  one submission.
\<close>

lemma background_submission:
  assumes "\<not> t_isDemo t" and "truthy (t_userId t)"
    and "getValidAccessToken (w_now w) (w_later w) (w_token w) d (or_else (t_userId t) [])
           = (d1, accessToken, evT)"
    and "truthy accessToken"
    and "selected_resume d1 (Some (or_else (t_userId t) [])) = Some selectedResume"
    and "truthy (r_hhResumeId selectedResume)"
    and "applyToVacancy (w_negotiations w) = Inr result"
  shows "filter is_update (snd (background w d t))
           = [EvUpdate (t_appId t)
                (if truthy (n_error result)
                 then no_set\<lparr>set_coverLetter := Some (task_coverLetter w d t),
                              set_resumeId := Some (r_id selectedResume),
                              set_status := Some (js ''failed''),
                              set_errorReason := n_error result\<rparr>
                 else no_set\<lparr>set_coverLetter := Some (task_coverLetter w d t),
                              set_resumeId := Some (r_id selectedResume),
                              set_status := Some (js ''success''),
                              set_hhNegotiationId := Some (or_null (n_id result))\<rparr>)]
         \<and> filter is_apply (snd (background w d t))
             = [EvApply (or_else accessToken []) (t_vacancyId t)
                  (or_else (r_hhResumeId selectedResume) []) (task_coverLetter w d t)]
         \<and> applications (fst (background w d t))
             = map (\<lambda>a. if a_id a = t_appId t
                         then (if truthy (n_error result)
                               then a\<lparr>a_coverLetter := Some (task_coverLetter w d t),
                                      a_resumeId := Some (r_id selectedResume),
                                      a_status := js ''failed'',
                                      a_errorReason := n_error result\<rparr>
                               else a\<lparr>a_coverLetter := Some (task_coverLetter w d t),
                                      a_resumeId := Some (r_id selectedResume),
                                      a_status := js ''success'',
                                      a_hhNegotiationId := or_null (n_id result)\<rparr>)
                         else a) (applications d)"
proof -
  have ev: "filter is_update evT = []" "filter is_apply evT = []"
    using getValidAccessToken_events [of "w_now w" "w_later w" "w_token w" d "or_else (t_userId t) []"]
      assms(3) by simp_all
  have ap: "applications d1 = applications d"
    using applications_getValidAccessToken [of "w_now w" "w_later w" "w_token w" d "or_else (t_userId t) []"]
      assms(3) by simp
  have er: "truthy (n_error result) \<Longrightarrow> \<exists>e. n_error result = Some e"
    by (cases "n_error result") (simp_all add: truthy_def)
  show ?thesis
  proof (cases "truthy (n_error result)")
    case True
    then obtain e where e: "n_error result = Some e" using er by blast
    have bg: "background w d t
      = (update_application d1 (t_appId t)
           (no_set\<lparr>set_coverLetter := Some (task_coverLetter w d t),
                    set_resumeId := Some (r_id selectedResume),
                    set_status := Some (js ''failed''),
                    set_errorReason := n_error result\<rparr>),
         [EvGenerate (resumeTextFinal d t) (task_vacancy t)] @ evT
           @ [EvApply (or_else accessToken []) (t_vacancyId t)
                  (or_else (r_hhResumeId selectedResume) []) (task_coverLetter w d t)]
           @ [EvUpdate (t_appId t)
               (no_set\<lparr>set_coverLetter := Some (task_coverLetter w d t),
                    set_resumeId := Some (r_id selectedResume),
                    set_status := Some (js ''failed''),
                    set_errorReason := n_error result\<rparr>)])"
      using assms True by (simp add: background_def Let_def)
    show ?thesis
      unfolding bg using ev ap True e
      by (simp add: update_application_def apply_set_def no_set_def)
  next
    case False
    have bg: "background w d t
      = (update_application d1 (t_appId t)
           (no_set\<lparr>set_coverLetter := Some (task_coverLetter w d t),
                    set_resumeId := Some (r_id selectedResume),
                    set_status := Some (js ''success''),
                    set_hhNegotiationId := Some (or_null (n_id result))\<rparr>),
         [EvGenerate (resumeTextFinal d t) (task_vacancy t)] @ evT
           @ [EvApply (or_else accessToken []) (t_vacancyId t)
                  (or_else (r_hhResumeId selectedResume) []) (task_coverLetter w d t)]
           @ [EvUpdate (t_appId t)
               (no_set\<lparr>set_coverLetter := Some (task_coverLetter w d t),
                    set_resumeId := Some (r_id selectedResume),
                    set_status := Some (js ''success''),
                    set_hhNegotiationId := Some (or_null (n_id result))\<rparr>)])"
      using assms False by (simp add: background_def Let_def)
    show ?thesis
      unfolding bg using ev ap False
      by (simp add: update_application_def apply_set_def no_set_def)
  qed
qed

lemma background_submission_sample:
  "\<not> t_isDemo sample_task \<and> truthy (t_userId sample_task)
   \<and> filter is_update (snd (background sample_world sample_queued_db sample_task))
       = [EvUpdate 1 (no_set\<lparr>set_coverLetter := Some (js ''I ran growth projects.''),
                            set_resumeId := Some 7,
                            set_status := Some (js ''success''),
                            set_hhNegotiationId := Some (Some (js ''777''))\<rparr>)]
   \<and> filter is_apply (snd (background sample_world sample_queued_db sample_task))
       = [EvApply (js ''tok'') (js ''123'') (js ''hh-1'') (js ''I ran growth projects.'')]
   \<and> filter is_update
        (snd (background (sample_world\<lparr>w_negotiations := NegHttp 403 None BodyUnparsable\<rparr>)
               sample_queued_db sample_task))
       = [EvUpdate 1 (no_set\<lparr>set_coverLetter := Some (js ''I ran growth projects.''),
                            set_resumeId := Some 7,
                            set_status := Some (js ''failed''),
                            set_errorReason := Some (js ''HTTP 403'')\<rparr>)]"
proof -
  let ?w = "sample_world\<lparr>w_negotiations := NegHttp 403 None BodyUnparsable\<rparr>"
  have l: "task_coverLetter sample_world sample_queued_db sample_task = js ''I ran growth projects.''"
    "task_coverLetter ?w sample_queued_db sample_task = js ''I ran growth projects.''"
    by (simp_all add: task_coverLetter_def generateCoverLetter_def sample_defs truthy_def
        sanitize_def trim_def js_def is_space_def is_markup_def)
  have a: "\<not> t_isDemo sample_task" "truthy (t_userId sample_task)"
    by (simp_all add: sample_task_def truthy_def js_def)
  have g: "getValidAccessToken (w_now sample_world) (w_later sample_world) (w_token sample_world)
             sample_queued_db (or_else (t_userId sample_task) [])
           = (sample_queued_db, Some (js ''tok''), [])"
    "getValidAccessToken (w_now ?w) (w_later ?w) (w_token ?w)
             sample_queued_db (or_else (t_userId sample_task) [])
           = (sample_queued_db, Some (js ''tok''), [])"
    by (simp_all add: getValidAccessToken_def sample_defs truthy_def or_else_def js_def Let_def)
  have k: "truthy (Some (js ''tok''))" by (simp add: truthy_def js_def)
  have r: "selected_resume sample_queued_db (Some (or_else (t_userId sample_task) []))
             = Some sample_resume"
    by (simp add: selected_resume_def sample_defs or_else_def js_def)
  have h: "truthy (r_hhResumeId sample_resume)"
    by (simp add: sample_resume_def truthy_def js_def)
  have ok: "applyToVacancy (w_negotiations sample_world)
              = Inr \<lparr>n_id = Some (js ''777''), n_error = None\<rparr>"
    by (simp add: applyToVacancy_def sample_world_def truthy_def last_segment_def js_def)
  have ko: "applyToVacancy (w_negotiations ?w)
              = Inr \<lparr>n_id = None, n_error = Some (js ''HTTP 403'')\<rparr>"
    by (simp add: applyToVacancy_def http_ok_def or_else_def js_def dec.simps)
  show ?thesis
    using background_submission [OF a g(1) k r h ok] background_submission [OF a g(2) k r h ko] a
    unfolding l
    by (simp add: truthy_def or_null_def or_else_def sample_resume_def sample_task_def js_def)
qed

text \<open>
  Claim C5. For an authenticated, non-demo application that reaches the submission, an
  error reported by the job board should end in one update with the cover letter, the
  resume reference, the status "failed" and the board's message. An answer that is not
  \<open>ok\<close> and has the JSON body \<open>null\<close> does not: the client throws while reading the
  message, and the \<open>catch\<close> of the background callback makes its one update with the
  status "failed" and the internal-error reason only, leaving the cover letter and the
  resume reference of the row empty.
\<close>

theorem background_null_error_body:
  "\<not> http_ok 403
   \<and> applyToVacancy (NegHttp 403 None BodyNull) = Inl TypeError
   \<and> snd (background (sample_world\<lparr>w_negotiations := NegHttp 403 None BodyNull\<rparr>)
            sample_queued_db sample_task)
       = [EvGenerate (js ''Five years in marketing'') (task_vacancy sample_task),
          EvApply (js ''tok'') (js ''123'') (js ''hh-1'') (js ''I ran growth projects.''),
          EvUpdate 1 (no_set\<lparr>set_status := Some (js ''failed''),
                            set_errorReason := Some err_internal\<rparr>)]
   \<and> applications (fst (background (sample_world\<lparr>w_negotiations := NegHttp 403 None BodyNull\<rparr>)
                           sample_queued_db sample_task))
       = [sample_pending\<lparr>a_status := js ''failed'', a_errorReason := Some err_internal\<rparr>]
   \<and> a_coverLetter (sample_pending\<lparr>a_status := js ''failed'', a_errorReason := Some err_internal\<rparr>)
       = None
   \<and> a_resumeId (sample_pending\<lparr>a_status := js ''failed'', a_errorReason := Some err_internal\<rparr>)
       = None"
proof -
  let ?w = "sample_world\<lparr>w_negotiations := NegHttp 403 None BodyNull\<rparr>"
  have l: "task_coverLetter ?w sample_queued_db sample_task = js ''I ran growth projects.''"
    by (simp add: task_coverLetter_def generateCoverLetter_def sample_defs truthy_def
        sanitize_def trim_def js_def is_space_def is_markup_def)
  have f: "resumeTextFinal sample_queued_db sample_task = js ''Five years in marketing''"
    by (simp add: resumeTextFinal_def selected_resume_def sample_defs js_def)
  have a: "\<not> t_isDemo sample_task" "truthy (t_userId sample_task)"
    "or_else (t_userId sample_task) [] = js ''u1''" "t_appId sample_task = 1"
    "t_vacancyId sample_task = js ''123''"
    by (simp_all add: sample_task_def truthy_def or_else_def js_def)
  have g: "getValidAccessToken (w_now ?w) (w_later ?w) (w_token ?w) sample_queued_db (js ''u1'')
           = (sample_queued_db, Some (js ''tok''), [])"
    by (simp add: getValidAccessToken_def sample_defs truthy_def js_def Let_def)
  have k: "truthy (Some (js ''tok''))" "or_else (Some (js ''tok'')) [] = js ''tok''"
    by (simp_all add: truthy_def or_else_def js_def)
  have r: "selected_resume sample_queued_db (Some (js ''u1'')) = Some sample_resume"
    by (simp add: selected_resume_def sample_defs js_def)
  have h: "truthy (r_hhResumeId sample_resume)" "or_else (r_hhResumeId sample_resume) [] = js ''hh-1''"
    by (simp_all add: sample_resume_def truthy_def or_else_def js_def)
  have ko: "applyToVacancy (NegHttp 403 None BodyNull) = Inl TypeError"
    by (simp add: applyToVacancy_def http_ok_def)
  have w: "w_negotiations ?w = NegHttp 403 None BodyNull" by simp
  have bg: "background ?w sample_queued_db sample_task
     = (update_application sample_queued_db 1
          (no_set\<lparr>set_status := Some (js ''failed''), set_errorReason := Some err_internal\<rparr>),
        [EvGenerate (js ''Five years in marketing'') (task_vacancy sample_task),
          EvApply (js ''tok'') (js ''123'') (js ''hh-1'') (js ''I ran growth projects.''),
          EvUpdate 1 (no_set\<lparr>set_status := Some (js ''failed''),
                            set_errorReason := Some err_internal\<rparr>)])"
    unfolding background_def Let_def l f a g w ko
    using a(1,2) k h r by simp
  show ?thesis
    unfolding bg using ko
    by (simp add: http_ok_def update_application_def apply_set_def no_set_def
        sample_queued_db_def sample_db_def sample_pending_def)
qed

theorem background_null_error_body_witness:
  "filter is_update
     (snd (background (sample_world\<lparr>w_negotiations := NegHttp 403 None BodyNull\<rparr>)
             sample_queued_db sample_task))
     = [EvUpdate 1 (no_set\<lparr>set_status := Some (js ''failed''),
                          set_errorReason := Some err_internal\<rparr>)]
   \<and> map a_coverLetter
         (applications (fst (background (sample_world\<lparr>w_negotiations := NegHttp 403 None BodyNull\<rparr>)
                               sample_queued_db sample_task)))
       = [None]"
  using background_null_error_body by simp

lemmas sample_defs2 = sample_swipe_def sample_swiped_db_def sample_vacancy_def sample_detail_def
  sample_board_resumes_def sample_new_user_db_def sample_long_resume_def sample_job_def
  sample_answer_def

subsection \<open>Selected resumes\<close>

text \<open>
  Selecting a resume and saving the manual resume keep the invariant "at most one
  selected resume from the job board per user" (row ids being unique).
\<close>

lemma length_filter_le_1_distinct:
  assumes "distinct (map f xs)" and "\<And>x. x \<in> set xs \<Longrightarrow> P x \<Longrightarrow> f x = k"
  shows "length (filter P xs) \<le> 1"
  using assms
proof (induction xs)
  case Nil
  then show ?case by simp
next
  case (Cons x xs)
  show ?case
  proof (cases "P x")
    case True
    have "filter P xs = []"
    proof (rule ccontr)
      assume "filter P xs \<noteq> []"
      then obtain y where y: "y \<in> set xs" "P y"
        by (metis filter_False)
      then have "f y = k" using Cons.prems(2) by simp
      moreover have "f x = k" using Cons.prems(2) True by simp
      ultimately show False using Cons.prems(1) y(1) by (auto simp: image_iff)
    qed
    then show ?thesis by simp
  next
    case False
    then show ?thesis using Cons by simp
  qed
qed

lemma post_resumes_select_resumes:
  "resumes (fst (post_resumes_select d userId resumeId)) = resumes d
   \<or> (\<exists>u rid. userId = Some u \<and>
        resumes (fst (post_resumes_select d userId resumeId))
          = map (\<lambda>r. if r_userId r = Some u then r\<lparr>r_selected := (r_id r = rid)\<rparr> else r) (resumes d))"
proof (cases "\<not> truthy userId \<or> resumeId = None \<or> resumeId = Some 0")
  case True
  then show ?thesis by (simp add: post_resumes_select_def)
next
  case False
  then obtain u where u: "userId = Some u" "u \<noteq> []"
    by (cases userId) (auto simp: truthy_def)
  have "resumes (fst (post_resumes_select d userId resumeId))
          = map (\<lambda>r. if r_userId r = Some u
                      then r\<lparr>r_selected := (r_id r = (case resumeId of None \<Rightarrow> 0 | Some n \<Rightarrow> n))\<rparr>
                      else r) (resumes d)"
    using False u
    by (auto simp: post_resumes_select_def Let_def or_else_def split: option.splits)
  then show ?thesis using u by blast
qed

lemma post_resumes_select_one_selected:
  assumes "distinct (map r_id (resumes d))" and "one_selected d u'"
  shows "one_selected (fst (post_resumes_select d userId resumeId)) u'"
proof -
  consider (same) "resumes (fst (post_resumes_select d userId resumeId)) = resumes d"
    | (sel) u rid where "userId = Some u"
        "resumes (fst (post_resumes_select d userId resumeId))
          = map (\<lambda>r. if r_userId r = Some u then r\<lparr>r_selected := (r_id r = rid)\<rparr> else r) (resumes d)"
    using post_resumes_select_resumes [of d userId resumeId] by blast
  then show ?thesis
  proof cases
    case same
    then show ?thesis using assms(2) by (simp add: one_selected_def selected_external_def)
  next
    case sel
    let ?g = "\<lambda>r. if r_userId r = Some u then r\<lparr>r_selected := (r_id r = rid)\<rparr> else r"
    show ?thesis
    proof (cases "u' = u")
      case True
      have e: "length (filter (\<lambda>r. r_userId r = Some u \<and> r_hhResumeId r \<noteq> None \<and> r_selected r)
              (map ?g xs))
            = length (filter (\<lambda>r. r_userId r = Some u \<and> r_hhResumeId r \<noteq> None \<and> r_id r = rid)
                        xs)" for xs
        by (induction xs) auto
      have le: "length (filter (\<lambda>r. r_userId r = Some u \<and> r_hhResumeId r \<noteq> None \<and> r_id r = rid)
                        (resumes d)) \<le> 1"
        by (rule length_filter_le_1_distinct [OF assms(1), of _ rid]) simp
      show ?thesis
        unfolding one_selected_def selected_external_def sel(2) True
        using e [of "resumes d"] le by linarith
    next
      case False
      have e: "length (filter (\<lambda>r. r_userId r = Some u' \<and> r_hhResumeId r \<noteq> None \<and> r_selected r)
              (map ?g xs))
            = length (filter (\<lambda>r. r_userId r = Some u' \<and> r_hhResumeId r \<noteq> None \<and> r_selected r) xs)" for xs
        using False by (induction xs) auto
      show ?thesis
        using assms(2)
        unfolding one_selected_def selected_external_def sel(2)
        using e [of "resumes d"] by linarith
    qed
  qed
qed

lemma saveManualResume_one_selected:
  assumes "one_selected d u'"
  shows "one_selected (fst (saveManualResume now d userId content)) u'"
proof (cases "getManualResume d userId")
  case None
  then show ?thesis
    using assms by (simp add: saveManualResume_def one_selected_def selected_external_def Let_def)
next
  case (Some existing)
  let ?g = "\<lambda>r. if r_id r = r_id existing then r\<lparr>r_content := content, r_updatedAt := now\<rparr> else r"
  have e: "length (filter (\<lambda>r. r_userId r = Some u' \<and> r_hhResumeId r \<noteq> None \<and> r_selected r)
              (map ?g xs))
        = length (filter (\<lambda>r. r_userId r = Some u' \<and> r_hhResumeId r \<noteq> None \<and> r_selected r) xs)"
    for xs :: "resume list"
    by (induction xs) auto
  have r: "resumes (fst (saveManualResume now d userId content)) = map ?g (resumes d)"
    using Some by (simp add: saveManualResume_def Let_def)
  show ?thesis
    using assms
    unfolding one_selected_def selected_external_def r
    using e [of "resumes d"] by linarith
qed

text \<open>
  Claim C6. Every operation that writes resume rows should leave at most one selected
  resume from the job board per user. The two synchronisations do not. The OAuth
  callback inserts every new resume as selected: a new user whose account has two
  resumes ends with both selected. The sync route selects the first resume it writes
  when that one is new, without deselecting: a user with a selected resume whose
  account lists a new resume first ends with two selected.
\<close>

theorem sync_selects_two_resumes:
  "one_selected sample_new_user_db (js ''u1'')
   \<and> map r_hhResumeId
         (selected_external (callback_sync 1000 (js ''u1'') sample_board_resumes sample_new_user_db)
            (js ''u1''))
       = [Some (js ''hh-2''), Some (js ''hh-1'')]
   \<and> \<not> one_selected (callback_sync 1000 (js ''u1'') sample_board_resumes sample_new_user_db)
          (js ''u1'')
   \<and> one_selected sample_db (js ''u1'')
   \<and> map r_hhResumeId
         (selected_external
            (fst (post_resumes_sync 1000 1001 TokenFetchFails (Some sample_board_resumes)
                    sample_db (Some (js ''u1''))))
            (js ''u1''))
       = [Some (js ''hh-1''), Some (js ''hh-2'')]
   \<and> \<not> one_selected
          (fst (post_resumes_sync 1000 1001 TokenFetchFails (Some sample_board_resumes)
                  sample_db (Some (js ''u1''))))
          (js ''u1'')"
proof -
  have a: "callback_sync 1000 (js ''u1'') sample_board_resumes sample_new_user_db
     = sample_new_user_db\<lparr>resumes :=
         [\<lparr>r_id = 1, r_userId = Some (js ''u1''), r_hhResumeId = Some (js ''hh-2''),
           r_title = Some (js ''Analyst''), r_content = js ''Two years in analytics'',
           r_selected = True, r_updatedAt = 1000\<rparr>,
          \<lparr>r_id = 2, r_userId = Some (js ''u1''), r_hhResumeId = Some (js ''hh-1''),
           r_title = Some (js ''Marketing lead''), r_content = js ''Five years in marketing'',
           r_selected = True, r_updatedAt = 1000\<rparr>],
         resumes_seq := 2\<rparr>"
    by (simp add: sample_defs sample_defs2 js_def)
  have t: "getValidAccessToken 1000 1001 TokenFetchFails sample_db (js ''u1'')
             = (sample_db, Some (js ''tok''), [])"
    by (simp add: getValidAccessToken_def sample_defs truthy_def js_def)
  have b: "fst (post_resumes_sync 1000 1001 TokenFetchFails (Some sample_board_resumes)
                    sample_db (Some (js ''u1'')))
     = sample_db\<lparr>resumes :=
         [sample_resume\<lparr>r_updatedAt := 1000\<rparr>,
          \<lparr>r_id = 8, r_userId = Some (js ''u1''), r_hhResumeId = Some (js ''hh-2''),
           r_title = Some (js ''Analyst''), r_content = js ''Two years in analytics'',
           r_selected = True, r_updatedAt = 1000\<rparr>],
         resumes_seq := 8\<rparr>"
    using t
    by (simp add: post_resumes_sync_def truthy_def or_else_def sample_defs sample_defs2 js_def Let_def)
  show ?thesis
    unfolding a b
    by (simp add: one_selected_def selected_external_def sample_defs sample_defs2 js_def)
qed

subsection \<open>Swipes\<close>

lemma hasSwipedVacancy_iff_key:
  "hasSwipedVacancy d u v \<longleftrightarrow> (u, v) \<in> set (map swipe_key (swipes d))"
  by (auto simp: hasSwipedVacancy_def swipe_key_def find_None_iff image_iff)

text \<open>
  Claim C7. When a swipe row exists for a user and a vacancy, a further swipe request
  for that pair inserts no row, and, its direction being "left" or "right", it is
  answered with \<open>alreadySwiped = true\<close>. A request never makes two rows share a pair, so
  a table with at most one swipe per pair keeps that property (the requests being
  handled one after the other).
\<close>

theorem swipe_dedup:
  "((\<exists>s \<in> set (swipes d). s_userId s = u \<and> s_vacancyId s = v)
      \<and> sq_userId req = Some u \<and> sq_vacancyId req = Some v
     \<longrightarrow> swipes (fst (post_swipes now d req)) = swipes d
         \<and> (u \<noteq> [] \<and> v \<noteq> [] \<and> sq_direction req \<in> {Some (js ''left''), Some (js ''right'')}
              \<longrightarrow> post_swipes now d req = (d, Response 200 AlreadySwiped)))
   \<and> (distinct (map swipe_key (swipes d))
        \<longrightarrow> distinct (map swipe_key (swipes (fst (post_swipes now d req)))))"
proof (intro conjI impI)
  assume a: "(\<exists>s \<in> set (swipes d). s_userId s = u \<and> s_vacancyId s = v)
      \<and> sq_userId req = Some u \<and> sq_vacancyId req = Some v"
  then have h: "hasSwipedVacancy d u v"
    by (auto simp: hasSwipedVacancy_iff_key swipe_key_def image_iff)
  show "swipes (fst (post_swipes now d req)) = swipes d"
    using a h by (auto simp: post_swipes_def Let_def or_else_def truthy_def)
  assume "u \<noteq> [] \<and> v \<noteq> [] \<and> sq_direction req \<in> {Some (js ''left''), Some (js ''right'')}"
  then show "post_swipes now d req = (d, Response 200 AlreadySwiped)"
    using a h by (auto simp: post_swipes_def Let_def or_else_def truthy_def js_def)
next
  assume dis: "distinct (map swipe_key (swipes d))"
  show "distinct (map swipe_key (swipes (fst (post_swipes now d req))))"
  proof (cases "fst (post_swipes now d req) = d")
    case True
    then show ?thesis using dis by simp
  next
    case False
    then have n: "\<not> hasSwipedVacancy d (or_else (sq_userId req) []) (or_else (sq_vacancyId req) [])"
      by (auto simp: post_swipes_def Let_def split: if_splits)
    from False have "swipes (fst (post_swipes now d req))
        = swipes d @ [snd (createSwipe now d (or_else (sq_userId req) [])
                             (or_else (sq_vacancyId req) []) (or_else (sq_direction req) []))]"
      by (auto simp: post_swipes_def Let_def createSwipe_def deleteCompatibility_def split: if_splits)
    then show ?thesis
      using dis n by (simp add: hasSwipedVacancy_iff_key createSwipe_def swipe_key_def Let_def)
  qed
qed

theorem swipe_dedup_witness:
  "(\<exists>s \<in> set (swipes sample_swiped_db). s_userId s = js ''u1'' \<and> s_vacancyId s = js ''123'')
   \<and> post_swipes 1000 sample_swiped_db
         \<lparr>sq_vacancyId = Some (js ''123''), sq_direction = Some (js ''left''),
          sq_userId = Some (js ''u1'')\<rparr>
       = (sample_swiped_db, Response 200 AlreadySwiped)
   \<and> distinct (map swipe_key (swipes sample_swiped_db))
   \<and> distinct (map swipe_key (swipes (fst (post_swipes 1000 sample_swiped_db
         \<lparr>sq_vacancyId = Some (js ''124''), sq_direction = Some (js ''right''),
          sq_userId = Some (js ''u1'')\<rparr>))))"
  using swipe_dedup [where d = sample_swiped_db and u = "js ''u1''" and v = "js ''123''"
      and now = 1000
      and req = "\<lparr>sq_vacancyId = Some (js ''123''), sq_direction = Some (js ''left''),
                   sq_userId = Some (js ''u1'')\<rparr>"]
    swipe_dedup [where d = sample_swiped_db and u = "js ''u1''" and v = "js ''123''"
      and now = 1000
      and req = "\<lparr>sq_vacancyId = Some (js ''124''), sq_direction = Some (js ''right''),
                   sq_userId = Some (js ''u1'')\<rparr>"]
  by (simp add: sample_defs sample_defs2 swipe_key_def js_def)

subsection \<open>Vacancy search\<close>

lemma hj_id_adaptHHVacancy: "hj_id (adaptHHVacancy f v) = v_id v"
  by (simp add: adaptHHVacancy_def Let_def)

lemma getSwipedVacancyIds_table:
  "i \<in> set (getSwipedVacancyIds d u) \<longleftrightarrow> (\<exists>s \<in> set (swipes d). s_userId s = u \<and> s_vacancyId s = i)"
  by (auto simp: getSwipedVacancyIds_def)

text \<open>
  Claim C9. A vacancy search with a user id returns no vacancy for which the swipes
  table has a row of that user: the page returned is the page fetched from the job
  board, adapted, without the vacancies that this user has swiped. Swipes of other
  users remove nothing.
\<close>

theorem jobs_exclude_swiped:
  assumes "truthy userId"
  shows "(\<forall>job \<in> set (jr_jobs (response_body (get_hh_jobs search fetch_detail d batchParam userId))).
            \<not> (\<exists>s \<in> set (swipes d). Some (s_userId s) = userId \<and> s_vacancyId s = hj_id job))
         \<and> (search = SearchOk items totalFound pages \<longrightarrow>
              jr_jobs (response_body (get_hh_jobs search fetch_detail d batchParam userId))
                = filter (\<lambda>job. \<not> (\<exists>s \<in> set (swipes d).
                                       Some (s_userId s) = userId \<and> s_vacancyId s = hj_id job))
                    (map (adaptHHVacancy fetch_detail) items)
              \<and> map hj_id (jr_jobs (response_body (get_hh_jobs search fetch_detail d batchParam userId)))
                = filter (\<lambda>i. \<not> (\<exists>s \<in> set (swipes d). Some (s_userId s) = userId \<and> s_vacancyId s = i))
                    (map v_id items))"
proof -
  from assms obtain u where u: "userId = Some u" "or_else userId [] = u"
    by (cases userId) (auto simp: truthy_def or_else_def)
  have m: "(i \<notin> set (getSwipedVacancyIds d u))
             = (\<not> (\<exists>s \<in> set (swipes d). Some (s_userId s) = userId \<and> s_vacancyId s = i))" for i
    using u by (auto simp: getSwipedVacancyIds_table)
  show ?thesis
    using assms u
    by (cases search)
       (auto simp: get_hh_jobs_def Let_def response_body_def jobs_failed_def filter_map o_def
          hj_id_adaptHHVacancy m)
qed

theorem jobs_exclude_swiped_witness:
  "truthy (Some (js ''u1''))
   \<and> map swipe_key (swipes sample_two_users_db)
       = [(js ''u1'', js ''123''), (js ''u2'', js ''124'')]
   \<and> map hj_id (jr_jobs (response_body
         (get_hh_jobs (SearchOk [sample_vacancy, sample_vacancy\<lparr>v_id := js ''124''\<rparr>,
                                 sample_vacancy\<lparr>v_id := js ''125''\<rparr>] 3 1)
            sample_detail sample_two_users_db None (Some (js ''u1'')))))
       = [js ''124'', js ''125'']"
proof -
  let ?items = "[sample_vacancy, sample_vacancy\<lparr>v_id := js ''124''\<rparr>,
                 sample_vacancy\<lparr>v_id := js ''125''\<rparr>]"
  have t: "truthy (Some (js ''u1''))" by (simp add: truthy_def js_def)
  have k: "map swipe_key (swipes sample_two_users_db)
       = [(js ''u1'', js ''123''), (js ''u2'', js ''124'')]"
    by (simp add: sample_two_users_db_def sample_swipe_def sample_db_def swipe_key_def)
  have v: "map v_id ?items = [js ''123'', js ''124'', js ''125'']"
    by (simp add: sample_vacancy_def)
  have n: "js ''u2'' \<noteq> js ''u1''" "js ''124'' \<noteq> js ''123''" "js ''125'' \<noteq> js ''123''"
    "js ''125'' \<noteq> js ''124''"
    by (simp_all add: js_def)
  have f: "filter (\<lambda>i. \<not> (\<exists>s \<in> set (swipes sample_two_users_db).
                              Some (s_userId s) = Some (js ''u1'') \<and> s_vacancyId s = i))
             [js ''123'', js ''124'', js ''125''] = [js ''124'', js ''125'']"
    using n by (simp add: sample_two_users_db_def sample_swipe_def sample_db_def)
  have "map hj_id (jr_jobs (response_body
         (get_hh_jobs (SearchOk ?items 3 1) sample_detail sample_two_users_db None (Some (js ''u1'')))))
        = filter (\<lambda>i. \<not> (\<exists>s \<in> set (swipes sample_two_users_db).
                              Some (s_userId s) = Some (js ''u1'') \<and> s_vacancyId s = i))
            (map v_id ?items)"
    using jobs_exclude_swiped [OF t, where d = sample_two_users_db and fetch_detail = sample_detail
        and search = "SearchOk ?items 3 1" and items = ?items
        and totalFound = 3 and pages = 1 and batchParam = None]
    by blast
  then show ?thesis
    unfolding v f using t k by simp
qed

subsection \<open>Compatibility scorer\<close>

lemma clamp_cases:
  "Math_max (Fin 0) (Math_min (Fin 100) n) = NaN
   \<or> (\<exists>x. Math_max (Fin 0) (Math_min (Fin 100) n) = Fin x \<and> 0 \<le> x \<and> x \<le> 100
        \<and> (x = 0 \<or> x = 100 \<or> n = Fin x))"
  by (cases n) (auto simp: Math_max_def Math_min_def)

lemma clamp_round_in_range:
  "Math_max (Fin 0) (Math_min (Fin 100) (Math_round n)) = NaN
   \<or> score_in_range (Math_max (Fin 0) (Math_min (Fin 100) (Math_round n)))"
proof (cases n)
  case (Fin x)
  show ?thesis
    using clamp_cases [of "Math_round n"] Fin
    by (auto simp: score_in_range_def)
qed (auto simp: Math_max_def Math_min_def score_in_range_def)

lemma clamp_parseInt_in_range:
  "Math_max (Fin 0) (Math_min (Fin 100) (parseInt_number s)) = NaN
   \<or> score_in_range (Math_max (Fin 0) (Math_min (Fin 100) (parseInt_number s)))"
proof -
  have p: "\<exists>k. rat_of_nat m = rat_of_int k" for m
    by (rule exI [of _ "int m"]) simp
  have q: "\<exists>k. - rat_of_nat m = rat_of_int k" for m
    by (rule exI [of _ "- int m"]) simp
  have "parseInt_number s = NaN \<or> (\<exists>k. parseInt_number s = Fin (of_int k))"
    using p q by (auto simp: parseInt_number_def Let_def)
  then show ?thesis
    using clamp_cases [of "parseInt_number s"]
    by (auto simp: score_in_range_def)
qed

lemma yellow_50: "scoreToColor (Fin 50) = js ''yellow''"
  by (simp add: scoreToColor_def js_ge_def)

lemma extract_fallback_result:
  "cr_color (extract_fallback v m) = scoreToColor (cr_score (extract_fallback v m))
   \<and> (cr_score (extract_fallback v m) = NaN \<or> score_in_range (cr_score (extract_fallback v m)))"
  using clamp_parseInt_in_range
  by (auto simp: extract_fallback_def Let_def yellow_50 score_in_range_def split: option.splits)

text \<open>
  The scorer is total: every branch returns a result. Its colour is always the bucket
  of its score, and its score is a whole number from 0 to 100 unless it is \<open>NaN\<close>.
\<close>

lemma calculateCompatibility_result:
  "cr_color (calculateCompatibility k reply resume vacancy)
     = scoreToColor (cr_score (calculateCompatibility k reply resume vacancy))
   \<and> (cr_score (calculateCompatibility k reply resume vacancy) = NaN
      \<or> score_in_range (cr_score (calculateCompatibility k reply resume vacancy)))"
proof -
  have f: "score_in_range (Fin 50)" by (simp add: score_in_range_def)
  show ?thesis
    using clamp_round_in_range extract_fallback_result f
    by (auto simp: calculateCompatibility_def Let_def yellow_50
        split: compat_reply.splits option.splits json_parse.splits explanation_field.splits)
qed

text \<open>
  Claim C10. The scorer should return a whole score from 0 to 100 on every input. The
  clamp \<open>Math.max(0, Math.min(100, Math.round(parsed.score)))\<close> lets \<open>NaN\<close> through:
  when the model answers with a JSON object that has no \<open>score\<close>, the result has the
  score \<open>NaN\<close> and the colour "red".
\<close>

theorem calculateCompatibility_missing_score:
  "calculateCompatibility (Some (js ''key'')) (CompatContent sample_answer) sample_long_resume sample_job
     = \<lparr>cr_vacancyId = js ''123'', cr_score = NaN, cr_color = js ''red'',
        cr_explanation = js ''Strong match''\<rparr>
   \<and> \<not> score_in_range NaN
   \<and> 50 \<le> length (trim sample_long_resume)"
proof -
  have l: "trim sample_long_resume = sample_long_resume"
    by (simp add: trim_def sample_long_resume_def js_def is_space_def)
  have n: "length sample_long_resume = 68"
    by (simp add: sample_long_resume_def js_def)
  have s: "sanitize (js ''Strong match'') = js ''Strong match''"
    by (simp add: sanitize_def trim_def js_def is_space_def is_markup_def)
  have v: "String_int 123 = js ''123''"
    by (simp add: String_int_def dec.simps js_def)
  have e: "sample_long_resume \<noteq> []" using n by auto
  have k: "truthy (Some (js ''key''))" "js ''Strong match'' \<noteq> []"
    by (simp_all add: truthy_def js_def)
  show ?thesis
    using e k
    by (simp add: calculateCompatibility_def sample_answer_def sample_job_def l n s v
        Math_min_def Math_max_def scoreToColor_def js_ge_def score_in_range_def)
qed

theorem calculateCompatibility_missing_score_witness:
  "cr_score (calculateCompatibility (Some (js ''key'')) (CompatContent sample_answer)
               sample_long_resume sample_job) = NaN
   \<and> cr_color (calculateCompatibility (Some (js ''key'')) (CompatContent sample_answer)
               sample_long_resume sample_job) = js ''red''"
  using calculateCompatibility_missing_score by simp

end
